theory Spec2Isabelle
  imports Main "HOL-Library.Word"
begin

unbundle bit_operations_syntax

section \<open>Bytes, errors and panics\<close>

type_synonym byte = "8 word"

text \<open>
  The errors that \<open>Header.ReadFrom\<close> and \<open>Header.WriteTo\<close> return. \<open>EOF\<close>,
  \<open>ReadFailure\<close> and \<open>WriteFailure\<close> are the errors of the underlying stream, passed
  through unchanged. \<open>ProxyProtocolError\<close> and \<open>TransportProtocolError\<close> are the two
  error structs of header.go, with their fields in declaration order. The four
  \<open>Unsupported...\<close> constructors are the four \<open>fmt.Errorf\<close> values of
  \<open>Header.ReadFrom\<close>, each carrying the offending nibble that its message prints.
\<close>

datatype error =
    EOF
  | ReadFailure
  | WriteFailure
  | ProxyProtocolError (Expected: "byte list") (Found: "byte list")
  | UnsupportedVersion byte
  | UnsupportedCommand byte
  | UnsupportedAddressFamily byte
  | UnsupportedTransportProtocol byte
  | TransportProtocolError byte byte "16 word"

text \<open>
  A Go call either returns or panics. The panics that the package can raise: a method
  call on a nil interface value, \<open>make\<close> with a negative length, the explicit
  \<open>panic("address type is not supported")\<close>, and a slice expression out of range.
\<close>

datatype panic =
    NilDereference
  | MakesliceLenOutOfRange
  | AddressTypeNotSupported
  | SliceBoundsOutOfRange

datatype 'a result = Returned 'a | Panicked panic

section \<open>The byte source\<close>

text \<open>
  \<open>io.Reader\<close> is an interface of the Go library: \<open>Read(p)\<close> stores up to \<open>len(p)\<close>
  bytes into \<open>p\<close> and returns how many it stored and an error; a call may return a
  positive count together with an error. The model is a source holding the bytes still
  to come (\<open>pending\<close>) and a \<open>script\<close> that says how the next calls behave:

  \<^item> \<open>Deliver k\<close> hands over at most \<open>k\<close> bytes and no error, a short read when \<open>k\<close> is
    less than the request; with nothing pending it reports \<open>io.EOF\<close>.
  \<^item> \<open>DeliverErr k e\<close> hands over at most \<open>k\<close> bytes together with the error \<open>e\<close>. With
    \<open>k = 0\<close> this is a plain failure; \<open>iotest.DataErrReader\<close> reports \<open>io.EOF\<close> in this
    way, together with the last bytes.
  \<^item> \<open>Fill k\<close> hands over at most \<open>k\<close> pending bytes followed by zero bytes of its own up
    to the requested count, so the request is served in full. It is the full read
    with which a short read is compared in the last sections.

  With the script used up the source is \<open>bytes.Reader\<close>, the reader of the repository's
  tests: it reports \<open>io.EOF\<close> when nothing is pending and otherwise copies as many
  pending bytes as fit.

  \<open>Read r len\<close> returns the buffer after the call (\<open>make([]byte, len)\<close>, so bytes not
  overwritten are zero), the count, the error, and the source after the call.
\<close>

datatype read_event = Deliver nat | DeliverErr nat error | Fill nat

record Reader =
  pending :: "byte list"
  script :: "read_event list"

definition deliver :: "Reader \<Rightarrow> nat \<Rightarrow> nat \<Rightarrow> (byte list \<times> nat \<times> error option) \<times> Reader" where
  "deliver r len k =
     (if pending r = [] then ((replicate len 0, 0, Some EOF), r)
      else let n = min (min k len) (length (pending r))
           in ((take n (pending r) @ replicate (len - n) 0, n, None),
               r\<lparr>pending := drop n (pending r)\<rparr>))"

definition deliverErr ::
  "Reader \<Rightarrow> nat \<Rightarrow> nat \<Rightarrow> error \<Rightarrow> (byte list \<times> nat \<times> error option) \<times> Reader" where
  "deliverErr r len k e =
     (let n = min (min k len) (length (pending r))
      in ((take n (pending r) @ replicate (len - n) 0, n, Some e),
          r\<lparr>pending := drop n (pending r)\<rparr>))"

definition fill :: "Reader \<Rightarrow> nat \<Rightarrow> nat \<Rightarrow> (byte list \<times> nat \<times> error option) \<times> Reader" where
  "fill r len k =
     (if pending r = [] then ((replicate len 0, 0, Some EOF), r)
      else let n = min (min k len) (length (pending r))
           in ((take n (pending r) @ replicate (len - n) 0, len, None),
               r\<lparr>pending := drop n (pending r)\<rparr>))"

definition Read :: "Reader \<Rightarrow> nat \<Rightarrow> (byte list \<times> nat \<times> error option) \<times> Reader" where
  "Read r len =
     (case script r of
        [] \<Rightarrow> deliver r len len
      | Deliver k # es \<Rightarrow> deliver (r\<lparr>script := es\<rparr>) len k
      | DeliverErr k e # es \<Rightarrow> deliverErr (r\<lparr>script := es\<rparr>) len k e
      | Fill k # es \<Rightarrow> fill (r\<lparr>script := es\<rparr>) len k)"

definition bytes_NewReader :: "byte list \<Rightarrow> Reader" where
  "bytes_NewReader bs = \<lparr>pending = bs, script = []\<rparr>"

section \<open>Constants and field types (version.go, address.go)\<close>

definition ProtocolSignature :: "byte list" where
  "ProtocolSignature =
     [0x0D, 0x0A, 0x0D, 0x0A, 0x00, 0x0D, 0x0A, 0x51, 0x55, 0x49, 0x54, 0x0A]"

definition ProtocolVersion :: byte where "ProtocolVersion = 0x2"

type_synonym Command = byte

definition CommandLOCAL :: Command where "CommandLOCAL = 0"
definition CommandPROXY :: Command where "CommandPROXY = 1"

type_synonym AddressFamily = byte

definition AddressFamilyUNSPEC :: AddressFamily where "AddressFamilyUNSPEC = 0"
definition AddressFamilyINET :: AddressFamily where "AddressFamilyINET = 1"
definition AddressFamilyINET6 :: AddressFamily where "AddressFamilyINET6 = 2"
definition AddressFamilyUNIX :: AddressFamily where "AddressFamilyUNIX = 3"

type_synonym TransportProtocol = byte

definition TransportProtocolUNSPEC :: TransportProtocol where "TransportProtocolUNSPEC = 0"
definition TransportProtocolSTREAM :: TransportProtocol where "TransportProtocolSTREAM = 1"
definition TransportProtocolDGRAM :: TransportProtocol where "TransportProtocolDGRAM = 2"

text \<open>\<open>VersionByte{ProtocolVersion, Command}\<close> and
  \<open>ProtocolByte{AddressFamily, TransportProtocol}\<close>, fields in declaration order.\<close>

datatype VersionByte = VersionByte byte Command

datatype ProtocolByte = ProtocolByte AddressFamily TransportProtocol

text \<open>\<open>type AddressLength int16\<close>: sixteen bits, read as two's complement (\<open>sint\<close>).\<close>

type_synonym AddressLength = "16 word"

text \<open>\<open>binary.BigEndian.Uint16\<close> on a two-byte buffer.\<close>

definition BigEndian_Uint16 :: "byte list \<Rightarrow> 16 word" where
  "BigEndian_Uint16 b = push_bit 8 (ucast (b ! 0)) OR ucast (b ! 1)"

section \<open>Addresses (package net, address.go)\<close>

text \<open>
  \<open>net.Addr\<close> is an interface. \<open>TCPAddr\<close> and \<open>UDPAddr\<close> hold \<open>IP\<close> (a byte slice),
  \<open>Port\<close> (an int) and \<open>Zone\<close>; \<open>net.UnixAddr\<close> holds \<open>Name\<close> and \<open>Net\<close>. The name
  of a UNIX socket travels as raw bytes, so it is a byte list here. \<open>OtherAddr\<close> stands
  for every other value of the interface (nil included): the type switches of
  address.go send it to their default branch. Pointers to the three address structs are
  taken to be non-nil.
\<close>

record UnixSock =
  Name :: "byte list"
  Net :: string

datatype Addr =
    TCPAddr (IP: "byte list") (Port: int) (Zone: string)
  | UDPAddr (IP: "byte list") (Port: int) (Zone: string)
  | NetUnixAddr UnixSock
  | OtherAddr

text \<open>The three implementations of the interface \<open>ProxyAddress\<close>. The fields of
  \<open>UnixAddr\<close> have the static type \<open>*net.UnixAddr\<close>.\<close>

datatype ProxyAddress =
    IPv4Address Addr Addr
  | IPv6Address Addr Addr
  | UnixAddr UnixSock UnixSock

record Header =
  Command :: Command
  ProxyAddress :: "ProxyAddress option"

section \<open>Decoding\<close>

text \<open>\<open>VersionByte.ReadFrom\<close> (version.go): one read of one byte; on an error the
  receiver is left as it was.\<close>

definition VersionByte_ReadFrom ::
  "VersionByte \<Rightarrow> Reader \<Rightarrow> (VersionByte \<times> nat \<times> error option) \<times> Reader" where
  "VersionByte_ReadFrom v r =
     (case Read r 1 of ((data, m, err), r') \<Rightarrow>
        (case err of
           Some e \<Rightarrow> ((v, m, Some e), r')
         | None \<Rightarrow> ((VersionByte (drop_bit 4 (data ! 0)) (data ! 0 AND 0b1111), m, None), r')))"

definition ProtocolByte_ReadFrom ::
  "ProtocolByte \<Rightarrow> Reader \<Rightarrow> (ProtocolByte \<times> nat \<times> error option) \<times> Reader" where
  "ProtocolByte_ReadFrom p r =
     (case Read r 1 of ((data, m, err), r') \<Rightarrow>
        (case err of
           Some e \<Rightarrow> ((p, m, Some e), r')
         | None \<Rightarrow> ((ProtocolByte (drop_bit 4 (data ! 0)) (data ! 0 AND 0b1111), m, None), r')))"

definition AddressLength_ReadFrom ::
  "AddressLength \<Rightarrow> Reader \<Rightarrow> (AddressLength \<times> nat \<times> error option) \<times> Reader" where
  "AddressLength_ReadFrom a r =
     (case Read r 2 of ((data, m, err), r') \<Rightarrow>
        (case err of
           Some e \<Rightarrow> ((a, m, Some e), r')
         | None \<Rightarrow> ((BigEndian_Uint16 data, m, None), r')))"

definition readPort :: "Reader \<Rightarrow> (16 word \<times> nat \<times> error option) \<times> Reader" where
  "readPort r =
     (case Read r 2 of ((port, n, err), r') \<Rightarrow>
        (case err of
           Some e \<Rightarrow> ((0, n, Some e), r')
         | None \<Rightarrow> ((BigEndian_Uint16 port, n, None), r')))"

definition readIP :: "Reader \<Rightarrow> nat \<Rightarrow> (byte list option \<times> nat \<times> error option) \<times> Reader" where
  "readIP r len =
     (case Read r len of ((ip, n, err), r') \<Rightarrow>
        (case err of
           Some e \<Rightarrow> ((None, n, Some e), r')
         | None \<Rightarrow> ((Some ip, n, None), r')))"

text \<open>\<open>ipReadResult\<close>: the two addresses are pointers (\<open>*net.IP\<close>), nil until read.\<close>

record ipReadResult =
  sourceIP :: "byte list option"
  destinationIP :: "byte list option"
  sourcePort :: "16 word"
  destinationPort :: "16 word"

definition readIPsAndPorts ::
  "Reader \<Rightarrow> nat \<Rightarrow> (ipReadResult option \<times> nat \<times> error option) \<times> Reader" where
  "readIPsAndPorts r addressLength =
     (case readIP r addressLength of ((sIP, n, err), r1) \<Rightarrow>
       (let m = 0 + n in
        (case err of
           Some e \<Rightarrow> ((None, m, Some e), r1)
         | None \<Rightarrow>
            (case readIP r1 addressLength of ((dIP, n, err), r2) \<Rightarrow>
              (let m = m + n in
               (case err of
                  Some e \<Rightarrow> ((None, m, Some e), r2)
                | None \<Rightarrow>
                   (case readPort r2 of ((sPort, n, err), r3) \<Rightarrow>
                     (let m = m + n in
                      (case err of
                         Some e \<Rightarrow> ((None, m, Some e), r3)
                       | None \<Rightarrow>
                          (case readPort r3 of ((dPort, n, err), r4) \<Rightarrow>
                            (let m = m + n in
                             (case err of
                                Some e \<Rightarrow> ((None, m, Some e), r4)
                              | None \<Rightarrow>
                                 ((Some \<lparr>sourceIP = sIP, destinationIP = dIP,
                                          sourcePort = sPort, destinationPort = dPort\<rparr>,
                                   m, None), r4)))))))))))))"

record unixReadResult =
  SourceAddr :: "byte list"
  DestinationAddr :: "byte list"

definition readUnix ::
  "Reader \<Rightarrow> (unixReadResult option \<times> nat \<times> error option) \<times> Reader" where
  "readUnix r =
     (case Read r 108 of ((src, n, err), r1) \<Rightarrow>
       (case err of
          Some e \<Rightarrow> ((None, n, Some e), r1)
        | None \<Rightarrow>
           (case Read r1 108 of ((dst, m, err), r2) \<Rightarrow>
             (let n = n + m in
              (case err of
                 Some e \<Rightarrow> ((None, n, Some e), r2)
               | None \<Rightarrow> ((Some \<lparr>SourceAddr = src, DestinationAddr = dst\<rparr>, n, None), r2))))))"

text \<open>Dereferencing a pointer: nil panics.\<close>

definition deref :: "'a option \<Rightarrow> 'a result" where
  "deref p = (case p of None \<Rightarrow> Panicked NilDereference | Some x \<Rightarrow> Returned x)"

text \<open>
  The composite literals of \<open>Header.ReadFrom\<close> that build the two endpoints from a read
  result: \<open>IP: *result.sourceIP, Port: int(result.sourcePort)\<close> and the same for the
  destination. \<open>mk\<close> is \<open>TCPAddr\<close> or \<open>UDPAddr\<close>; the zone is not set.
\<close>

definition ipEndpoints ::
  "(byte list \<Rightarrow> int \<Rightarrow> string \<Rightarrow> Addr) \<Rightarrow> ipReadResult option \<Rightarrow> (Addr \<times> Addr) result" where
  "ipEndpoints mk result =
     (case deref result of
        Panicked p \<Rightarrow> Panicked p
      | Returned res \<Rightarrow>
         (case deref (sourceIP res) of
            Panicked p \<Rightarrow> Panicked p
          | Returned sIP \<Rightarrow>
             (case deref (destinationIP res) of
                Panicked p \<Rightarrow> Panicked p
              | Returned dIP \<Rightarrow>
                 Returned (mk sIP (uint (sourcePort res)) [],
                           mk dIP (uint (destinationPort res)) []))))"

definition unixEndpoints :: "string \<Rightarrow> unixReadResult option \<Rightarrow> (UnixSock \<times> UnixSock) result" where
  "unixEndpoints network result =
     (case deref result of
        Panicked p \<Rightarrow> Panicked p
      | Returned res \<Rightarrow>
         Returned (\<lparr>Name = SourceAddr res, Net = network\<rparr>,
                   \<lparr>Name = DestinationAddr res, Net = network\<rparr>))"

text \<open>
  The two shapes of the six recognised cases of \<open>switch protocol\<close>: read the
  endpoints, add the count, return the error if there is one, else attach the address.
  \<open>m\<close> is the count so far.
\<close>

definition readIPCase ::
  "Header \<Rightarrow> nat \<Rightarrow> Reader \<Rightarrow> nat \<Rightarrow> (byte list \<Rightarrow> int \<Rightarrow> string \<Rightarrow> Addr) \<Rightarrow>
   (Addr \<Rightarrow> Addr \<Rightarrow> ProxyAddress) \<Rightarrow> (nat \<times> error option) result \<times> Header \<times> Reader" where
  "readIPCase h m r len mk variant =
     (case readIPsAndPorts r len of ((result, n, err), r') \<Rightarrow>
       (let m = m + n in
        (case err of
           Some e \<Rightarrow> (Returned (m, Some e), h, r')
         | None \<Rightarrow>
            (case ipEndpoints mk result of
               Panicked p \<Rightarrow> (Panicked p, h, r')
             | Returned (src, dst) \<Rightarrow>
                (Returned (m, None), h\<lparr>ProxyAddress := Some (variant src dst)\<rparr>, r')))))"

definition readUnixCase ::
  "Header \<Rightarrow> nat \<Rightarrow> Reader \<Rightarrow> string \<Rightarrow> (nat \<times> error option) result \<times> Header \<times> Reader" where
  "readUnixCase h m r network =
     (case readUnix r of ((result, n, err), r') \<Rightarrow>
       (let m = m + n in
        (case err of
           Some e \<Rightarrow> (Returned (m, Some e), h, r')
         | None \<Rightarrow>
            (case unixEndpoints network result of
               Panicked p \<Rightarrow> (Panicked p, h, r')
             | Returned (src, dst) \<Rightarrow>
                (Returned (m, None), h\<lparr>ProxyAddress := Some (UnixAddr src dst)\<rparr>, r')))))"

text \<open>\<open>make([]byte, addressLength)\<close> with \<open>addressLength\<close> an \<open>int16\<close>: a negative
  length panics, otherwise the buffer has that many bytes.\<close>

definition make_len :: "AddressLength \<Rightarrow> nat result" where
  "make_len a = (if sint a < 0 then Panicked MakesliceLenOutOfRange else Returned (nat (sint a)))"

text \<open>\<open>switch protocol\<close> of \<open>Header.ReadFrom\<close> (header.go, lines 106 to 227), entered
  with a nonzero \<open>addressLength\<close>. The declared length is used by the default branch
  only.\<close>

definition readAddress ::
  "Header \<Rightarrow> nat \<Rightarrow> Reader \<Rightarrow> ProtocolByte \<Rightarrow> AddressLength \<Rightarrow>
   (nat \<times> error option) result \<times> Header \<times> Reader" where
  "readAddress h m r protocol addressLength =
     (if protocol = ProtocolByte AddressFamilyINET TransportProtocolSTREAM then
        readIPCase h m r 4 TCPAddr IPv4Address
      else if protocol = ProtocolByte AddressFamilyINET TransportProtocolDGRAM then
        readIPCase h m r 4 UDPAddr IPv4Address
      else if protocol = ProtocolByte AddressFamilyINET6 TransportProtocolSTREAM then
        readIPCase h m r 16 TCPAddr IPv6Address
      else if protocol = ProtocolByte AddressFamilyINET6 TransportProtocolDGRAM then
        readIPCase h m r 16 UDPAddr IPv6Address
      else if protocol = ProtocolByte AddressFamilyUNIX TransportProtocolSTREAM then
        readUnixCase h m r ''unixpacket''
      else if protocol = ProtocolByte AddressFamilyUNIX TransportProtocolDGRAM then
        readUnixCase h m r ''unixgram''
      else
        (case make_len addressLength of
           Panicked p \<Rightarrow> (Panicked p, h, r)
         | Returned len \<Rightarrow>
            (case Read r len of ((data, n, err), r') \<Rightarrow>
              (let m = m + n in
               (case err of
                  Some e \<Rightarrow> (Returned (m, Some e), h, r')
                | None \<Rightarrow>
                   (case protocol of ProtocolByte af tp \<Rightarrow>
                      (Returned (m, Some (TransportProtocolError tp af addressLength)), h, r')))))))"

text \<open>
  \<open>Header.ReadFrom\<close> (header.go, lines 39 to 228). The receiver is a pointer, so the
  header as the call leaves it is part of the result, next to what the call returns
  (the count \<open>m\<close> and the error) and the source after the call. Every field is read
  with one call of \<open>Read\<close>.
\<close>

definition ReadFrom ::
  "Header \<Rightarrow> Reader \<Rightarrow> (nat \<times> error option) result \<times> Header \<times> Reader" where
  "ReadFrom h r =
     (case Read r 12 of ((signature, n, err), r1) \<Rightarrow>
       (let m = 0 + n in
        (case err of
           Some e \<Rightarrow> (Returned (m, Some e), h, r1)
         | None \<Rightarrow>
            (if signature \<noteq> ProtocolSignature then
               (Returned (m, Some (ProxyProtocolError ProtocolSignature signature)), h, r1)
             else
               (case VersionByte_ReadFrom (VersionByte 0 0) r1 of
                  ((VersionByte version command, k, err), r2) \<Rightarrow>
                   (let m = m + k in
                    (case err of
                       Some e \<Rightarrow> (Returned (m, Some e), h, r2)
                     | None \<Rightarrow>
                        (if version \<noteq> ProtocolVersion then
                           (Returned (m, Some (UnsupportedVersion version)), h, r2)
                         else if command \<noteq> CommandLOCAL \<and> command \<noteq> CommandPROXY then
                           (Returned (m, Some (UnsupportedCommand command)), h, r2)
                         else
                           (let h = h\<lparr>Command := command\<rparr> in
                            (case ProtocolByte_ReadFrom (ProtocolByte 0 0) r2 of
                               ((ProtocolByte family transport, k, err), r3) \<Rightarrow>
                                (let m = m + k in
                                 (case err of
                                    Some e \<Rightarrow> (Returned (m, Some e), h, r3)
                                  | None \<Rightarrow>
                                     (if family \<noteq> AddressFamilyUNSPEC \<and> family \<noteq> AddressFamilyINET \<and>
                                         family \<noteq> AddressFamilyINET6 \<and> family \<noteq> AddressFamilyUNIX then
                                        (Returned (m, Some (UnsupportedAddressFamily family)), h, r3)
                                      else if transport \<noteq> TransportProtocolUNSPEC \<and>
                                              transport \<noteq> TransportProtocolSTREAM \<and>
                                              transport \<noteq> TransportProtocolDGRAM then
                                        (Returned (m, Some (UnsupportedTransportProtocol transport)), h, r3)
                                      else
                                        (case AddressLength_ReadFrom 0 r3 of
                                           ((addressLength, k, err), r4) \<Rightarrow>
                                            (let m = m + k in
                                             (case err of
                                                Some e \<Rightarrow> (Returned (m, Some e), h, r4)
                                              | None \<Rightarrow>
                                                 (if addressLength = 0 then (Returned (m, None), h, r4)
                                                  else readAddress h m r4 (ProtocolByte family transport)
                                                         addressLength)))))))))))))))))"

section \<open>The byte sink\<close>

text \<open>
  \<open>io.Writer\<close> is an interface of the Go library: \<open>Write(p)\<close> returns how many bytes
  it wrote, and an error whenever that is less than \<open>len(p)\<close>. The model keeps the
  bytes \<open>written\<close> so far and the \<open>room\<close> left: \<open>None\<close> is a sink that never fails
  (\<open>bytes.Buffer\<close>, the sink of the repository's tests), \<open>Some k\<close> accepts \<open>k\<close> more
  bytes and then fails.
\<close>

record Writer =
  written :: "byte list"
  room :: "nat option"

definition Write :: "Writer \<Rightarrow> byte list \<Rightarrow> (nat \<times> error option) \<times> Writer" where
  "Write w p =
     (case room w of
        None \<Rightarrow> ((length p, None), w\<lparr>written := written w @ p\<rparr>)
      | Some k \<Rightarrow>
         (if length p \<le> k then
            ((length p, None), w\<lparr>written := written w @ p, room := Some (k - length p)\<rparr>)
          else
            ((k, Some WriteFailure), w\<lparr>written := written w @ take k p, room := Some 0\<rparr>)))"

definition bytes_Buffer :: Writer where
  "bytes_Buffer = \<lparr>written = [], room = None\<rparr>"

text \<open>\<open>binary.Write(w, binary.BigEndian, v)\<close> for a 16-bit \<open>v\<close>: the two bytes, high
  byte first, in one \<open>Write\<close>; only the error is returned.\<close>

definition BigEndian_PutUint16 :: "16 word \<Rightarrow> byte list" where
  "BigEndian_PutUint16 v = [ucast (drop_bit 8 v), ucast v]"

definition binary_Write :: "Writer \<Rightarrow> 16 word \<Rightarrow> error option \<times> Writer" where
  "binary_Write w v = (case Write w (BigEndian_PutUint16 v) of ((n, err), w') \<Rightarrow> (err, w'))"

section \<open>Encoding\<close>

definition VersionByte_WriteTo :: "VersionByte \<Rightarrow> Writer \<Rightarrow> (nat \<times> error option) \<times> Writer" where
  "VersionByte_WriteTo v w =
     (case v of VersionByte version command \<Rightarrow> Write w [push_bit 4 version OR command])"

definition ProtocolByte_WriteTo :: "ProtocolByte \<Rightarrow> Writer \<Rightarrow> (nat \<times> error option) \<times> Writer" where
  "ProtocolByte_WriteTo p w =
     (case p of ProtocolByte family transport \<Rightarrow> Write w [push_bit 4 family OR transport])"

definition AddressLength_WriteTo :: "AddressLength \<Rightarrow> Writer \<Rightarrow> (nat \<times> error option) \<times> Writer" where
  "AddressLength_WriteTo a w =
     (case binary_Write w a of
        (Some e, w') \<Rightarrow> ((0, Some e), w')
      | (None, w') \<Rightarrow> ((2, None), w'))"

definition getTransportProtocol :: "Addr \<Rightarrow> TransportProtocol result" where
  "getTransportProtocol addr =
     (case addr of
        TCPAddr ip port zone \<Rightarrow> Returned TransportProtocolSTREAM
      | UDPAddr ip port zone \<Rightarrow> Returned TransportProtocolDGRAM
      | NetUnixAddr u \<Rightarrow>
         (if Net u = ''unixgram'' then Returned TransportProtocolDGRAM
          else Returned TransportProtocolSTREAM)
      | OtherAddr \<Rightarrow> Panicked AddressTypeNotSupported)"

definition alignIP :: "byte list \<Rightarrow> byte list" where
  "alignIP ip = (if length ip < 16 then replicate (16 - length ip) 0 @ ip else ip)"

text \<open>\<open>copy(data, name)\<close> into \<open>data := make([]byte, 108)\<close>: at most 108 bytes are
  copied, the rest stays zero.\<close>

definition addressToBytes :: "Addr \<Rightarrow> byte list result" where
  "addressToBytes addr =
     (case addr of
        TCPAddr ip port zone \<Rightarrow> Returned (alignIP ip)
      | UDPAddr ip port zone \<Rightarrow> Returned (alignIP ip)
      | NetUnixAddr u \<Rightarrow> Returned (take 108 (Name u) @ replicate (108 - length (Name u)) 0)
      | OtherAddr \<Rightarrow> Panicked AddressTypeNotSupported)"

text \<open>\<open>uint16(addr.Port)\<close> keeps the low sixteen bits of the int.\<close>

definition getPort :: "Addr \<Rightarrow> 16 word result" where
  "getPort addr =
     (case addr of
        TCPAddr ip port zone \<Rightarrow> Returned (word_of_int port)
      | UDPAddr ip port zone \<Rightarrow> Returned (word_of_int port)
      | _ \<Rightarrow> Panicked AddressTypeNotSupported)"

definition writePorts :: "Writer \<Rightarrow> Addr \<Rightarrow> Addr \<Rightarrow> (nat \<times> error option) result \<times> Writer" where
  "writePorts w src dst =
     (case getPort src of
        Panicked p \<Rightarrow> (Panicked p, w)
      | Returned sp \<Rightarrow>
         (case binary_Write w sp of
            (Some e, w1) \<Rightarrow> (Returned (0, Some e), w1)
          | (None, w1) \<Rightarrow>
             (let m = 0 + 2 in
              (case getPort dst of
                 Panicked p \<Rightarrow> (Panicked p, w1)
               | Returned dp \<Rightarrow>
                  (case binary_Write w1 dp of
                     (Some e, w2) \<Rightarrow> (Returned (m, Some e), w2)
                   | (None, w2) \<Rightarrow> (Returned (m + 2, None), w2))))))"

text \<open>The slice expression \<open>b[12:]\<close>.\<close>

definition slice_from :: "byte list \<Rightarrow> nat \<Rightarrow> byte list result" where
  "slice_from b i = (if i \<le> length b then Returned (drop i b) else Panicked SliceBoundsOutOfRange)"

text \<open>The bytes of one endpoint as the three \<open>WriteTo\<close> methods take them:
  \<open>addressToBytes(addr)[12:]\<close> for IPv4, \<open>addressToBytes(addr)\<close> otherwise.\<close>

definition ipv4Bytes :: "Addr \<Rightarrow> byte list result" where
  "ipv4Bytes addr =
     (case addressToBytes addr of
        Panicked p \<Rightarrow> Panicked p
      | Returned b \<Rightarrow> slice_from b 12)"

text \<open>\<open>IPv4Address.WriteTo\<close> and \<open>IPv6Address.WriteTo\<close> differ in the bytes of an
  endpoint only: source address, destination address, then the two ports.\<close>

definition writeIPAddress ::
  "(Addr \<Rightarrow> byte list result) \<Rightarrow> Addr \<Rightarrow> Addr \<Rightarrow> Writer \<Rightarrow> (nat \<times> error option) result \<times> Writer" where
  "writeIPAddress bytesOf src dst w =
     (case bytesOf src of
        Panicked p \<Rightarrow> (Panicked p, w)
      | Returned sb \<Rightarrow>
         (case Write w sb of ((n, err), w1) \<Rightarrow>
           (let m = 0 + n in
            (case err of
               Some e \<Rightarrow> (Returned (m, Some e), w1)
             | None \<Rightarrow>
                (case bytesOf dst of
                   Panicked p \<Rightarrow> (Panicked p, w1)
                 | Returned db \<Rightarrow>
                    (case Write w1 db of ((n, err), w2) \<Rightarrow>
                      (let m = m + n in
                       (case err of
                          Some e \<Rightarrow> (Returned (m, Some e), w2)
                        | None \<Rightarrow>
                           (case writePorts w2 src dst of
                              (Panicked p, w3) \<Rightarrow> (Panicked p, w3)
                            | (Returned (k, err), w3) \<Rightarrow> (Returned (m + k, err), w3))))))))))"

definition IPv4Address_WriteTo ::
  "Addr \<Rightarrow> Addr \<Rightarrow> Writer \<Rightarrow> (nat \<times> error option) result \<times> Writer" where
  "IPv4Address_WriteTo src dst w = writeIPAddress ipv4Bytes src dst w"

definition IPv6Address_WriteTo ::
  "Addr \<Rightarrow> Addr \<Rightarrow> Writer \<Rightarrow> (nat \<times> error option) result \<times> Writer" where
  "IPv6Address_WriteTo src dst w = writeIPAddress addressToBytes src dst w"

definition UnixAddr_WriteTo ::
  "UnixSock \<Rightarrow> UnixSock \<Rightarrow> Writer \<Rightarrow> (nat \<times> error option) result \<times> Writer" where
  "UnixAddr_WriteTo src dst w =
     (case addressToBytes (NetUnixAddr src) of
        Panicked p \<Rightarrow> (Panicked p, w)
      | Returned sb \<Rightarrow>
         (case Write w sb of ((n, err), w1) \<Rightarrow>
           (let m = 0 + n in
            (case err of
               Some e \<Rightarrow> (Returned (m, Some e), w1)
             | None \<Rightarrow>
                (case addressToBytes (NetUnixAddr dst) of
                   Panicked p \<Rightarrow> (Panicked p, w1)
                 | Returned db \<Rightarrow>
                    (case Write w1 db of ((n, err), w2) \<Rightarrow>
                      (Returned (m + n, err), w2)))))))"

text \<open>The three methods of the interface \<open>ProxyAddress\<close>, by variant.\<close>

definition ProxyAddress_WriteTo ::
  "ProxyAddress \<Rightarrow> Writer \<Rightarrow> (nat \<times> error option) result \<times> Writer" where
  "ProxyAddress_WriteTo a w =
     (case a of
        IPv4Address src dst \<Rightarrow> IPv4Address_WriteTo src dst w
      | IPv6Address src dst \<Rightarrow> IPv6Address_WriteTo src dst w
      | UnixAddr src dst \<Rightarrow> UnixAddr_WriteTo src dst w)"

definition getLength :: "ProxyAddress \<Rightarrow> AddressLength" where
  "getLength a =
     (case a of
        IPv4Address src dst \<Rightarrow> 12
      | IPv6Address src dst \<Rightarrow> 36
      | UnixAddr src dst \<Rightarrow> 216)"

definition signatureOf :: "AddressFamily \<Rightarrow> Addr \<Rightarrow> ProtocolByte result" where
  "signatureOf family src =
     (case getTransportProtocol src of
        Panicked p \<Rightarrow> Panicked p
      | Returned transport \<Rightarrow> Returned (ProtocolByte family transport))"

definition getSignature :: "ProxyAddress \<Rightarrow> ProtocolByte result" where
  "getSignature a =
     (case a of
        IPv4Address src dst \<Rightarrow> signatureOf AddressFamilyINET src
      | IPv6Address src dst \<Rightarrow> signatureOf AddressFamilyINET6 src
      | UnixAddr src dst \<Rightarrow> signatureOf AddressFamilyUNIX (NetUnixAddr src))"

text \<open>
  \<open>Header.WriteTo\<close> (header.go, lines 230 to 277). \<open>h.ProxyAddress.getSignature()\<close> is
  a method call on an interface value and is made for either command: with no address
  attached (\<open>ProxyAddress h = None\<close>, the nil interface) it panics, after the signature
  and the version byte have been written.
\<close>

definition WriteTo :: "Header \<Rightarrow> Writer \<Rightarrow> (nat \<times> error option) result \<times> Writer" where
  "WriteTo h w =
     (case Write w ProtocolSignature of ((n, err), w1) \<Rightarrow>
       (let m = 0 + n in
        (case err of
           Some e \<Rightarrow> (Returned (m, Some e), w1)
         | None \<Rightarrow>
            (case VersionByte_WriteTo (VersionByte ProtocolVersion (Command h)) w1 of
               ((k, err), w2) \<Rightarrow>
                (let m = m + k in
                 (case err of
                    Some e \<Rightarrow> (Returned (m, Some e), w2)
                  | None \<Rightarrow>
                     (case ProxyAddress h of
                        None \<Rightarrow> (Panicked NilDereference, w2)
                      | Some a \<Rightarrow>
                         (case getSignature a of
                            Panicked p \<Rightarrow> (Panicked p, w2)
                          | Returned protocol \<Rightarrow>
                             (case ProtocolByte_WriteTo protocol w2 of ((k, err), w3) \<Rightarrow>
                               (let m = m + k in
                                (case err of
                                   Some e \<Rightarrow> (Returned (m, Some e), w3)
                                 | None \<Rightarrow>
                                    (if Command h = CommandPROXY then
                                       (case AddressLength_WriteTo (getLength a) w3 of
                                          ((k, err), w4) \<Rightarrow>
                                           (let m = m + k in
                                            (case err of
                                               Some e \<Rightarrow> (Returned (m, Some e), w4)
                                             | None \<Rightarrow>
                                                (case ProxyAddress_WriteTo a w4 of
                                                   (Panicked p, w5) \<Rightarrow> (Panicked p, w5)
                                                 | (Returned (k, err), w5) \<Rightarrow>
                                                    (Returned (m + k, err), w5)))))
                                     else
                                       (case AddressLength_WriteTo 0 w3 of
                                          ((k, err), w4) \<Rightarrow>
                                           (Returned (m + k, err), w4))))))))))))))"

section \<open>Properties of a source\<close>





section \<open>Addresses as decoding returns them\<close>

text \<open>
  \<open>wireNormal a\<close>: the address has the form in which \<open>Header.ReadFrom\<close> returns
  addresses, which is all that the wire format can carry. Both endpoints of an IP
  variant are TCP or both are UDP, with the IP of 4 bytes (IPv4) or 16 bytes (IPv6),
  the ports in 0 to 65535 and no zone; the names of a UNIX variant have 108 bytes and
  both networks are "unixpacket" or both are "unixgram".
\<close>

definition wireNormalIP :: "nat \<Rightarrow> Addr \<Rightarrow> Addr \<Rightarrow> bool" where
  "wireNormalIP n src dst \<longleftrightarrow>
     (case (src, dst) of
        (TCPAddr sip sp sz, TCPAddr dip dp dz) \<Rightarrow>
          length sip = n \<and> length dip = n \<and> 0 \<le> sp \<and> sp < 65536 \<and> 0 \<le> dp \<and> dp < 65536 \<and>
          sz = [] \<and> dz = []
      | (UDPAddr sip sp sz, UDPAddr dip dp dz) \<Rightarrow>
          length sip = n \<and> length dip = n \<and> 0 \<le> sp \<and> sp < 65536 \<and> 0 \<le> dp \<and> dp < 65536 \<and>
          sz = [] \<and> dz = []
      | _ \<Rightarrow> False)"

definition wireNormal :: "ProxyAddress \<Rightarrow> bool" where
  "wireNormal a \<longleftrightarrow>
     (case a of
        IPv4Address src dst \<Rightarrow> wireNormalIP 4 src dst
      | IPv6Address src dst \<Rightarrow> wireNormalIP 16 src dst
      | UnixAddr src dst \<Rightarrow>
          length (Name src) = 108 \<and> length (Name dst) = 108 \<and> Net dst = Net src \<and>
          (Net src = ''unixpacket'' \<or> Net src = ''unixgram''))"

section \<open>Reading from a byte slice\<close>

text \<open>\<open>bytes.Reader\<close> hands over as many pending bytes as fit, so a request that the
  pending bytes cover is served in full.\<close>

lemma Read_bytes:
  "bs \<noteq> [] \<Longrightarrow>
   Read (bytes_NewReader bs) len =
     ((take len bs @ replicate (len - length bs) 0, min len (length bs), None),
      bytes_NewReader (drop len bs))"
  by (auto simp: Read_def deliver_def bytes_NewReader_def Let_def min_def)

lemma Read_bytes_full:
  "0 < len \<Longrightarrow> len \<le> length bs \<Longrightarrow>
   Read (bytes_NewReader bs) len = ((take len bs, len, None), bytes_NewReader (drop len bs))"
  by (subst Read_bytes) auto

lemma Read_bytes_empty:
  "Read (bytes_NewReader []) len = ((replicate len 0, 0, Some EOF), bytes_NewReader [])"
  by (simp add: Read_def deliver_def bytes_NewReader_def)

lemmas constants =
  ProtocolSignature_def ProtocolVersion_def CommandLOCAL_def CommandPROXY_def
  AddressFamilyUNSPEC_def AddressFamilyINET_def AddressFamilyINET6_def AddressFamilyUNIX_def
  TransportProtocolUNSPEC_def TransportProtocolSTREAM_def TransportProtocolDGRAM_def

lemmas field_readers =
  VersionByte_ReadFrom_def ProtocolByte_ReadFrom_def AddressLength_ReadFrom_def
  readIP_def readPort_def readIPsAndPorts_def readUnix_def

section \<open>The canonical vector\<close>

text \<open>
  C6. Decoding the 28 bytes
  0D 0A 0D 0A 00 0D 0A 51 55 49 54 0A 21 11 00 0C 7F 00 00 01 7F 00 00 01 A5 CE 05 3A
  (the first vector of the repository's decoding test) returns no error and the count
  28, sets the command to PROXY and attaches an IPv4 address over TCP with source
  127.0.0.1 port 42446 and destination 127.0.0.1 port 1338; nothing is left pending.
\<close>

theorem canonical_vector_decodes:
  "ReadFrom h (bytes_NewReader
     [0x0D, 0x0A, 0x0D, 0x0A, 0x00, 0x0D, 0x0A, 0x51, 0x55, 0x49, 0x54, 0x0A, 0x21, 0x11, 0x00, 0x0C,
      0x7F, 0x00, 0x00, 0x01, 0x7F, 0x00, 0x00, 0x01, 0xA5, 0xCE, 0x05, 0x3A]) =
   (Returned (28, None),
    h\<lparr>Command := CommandPROXY,
      ProxyAddress := Some (IPv4Address (TCPAddr [127, 0, 0, 1] 42446 [])
                                        (TCPAddr [127, 0, 0, 1] 1338 []))\<rparr>,
    bytes_NewReader [])"
  by (simp add: ReadFrom_def readAddress_def readIPCase_def field_readers ipEndpoints_def
      deref_def Read_bytes_full BigEndian_Uint16_def constants)

section \<open>The signature\<close>

text \<open>
  C7. On an input of at least 12 bytes whose first 12 bytes are not the signature,
  decoding returns a \<open>ProxyProtocolError\<close> that carries the expected signature and the
  12 bytes found, and the count 12; the header is untouched and the bytes after the
  first 12 stay pending.
\<close>

theorem signature_mismatch:
  assumes "12 \<le> length bs" and "take 12 bs \<noteq> ProtocolSignature"
  shows "ReadFrom h (bytes_NewReader bs) =
           (Returned (12, Some (ProxyProtocolError ProtocolSignature (take 12 bs))), h,
            bytes_NewReader (drop 12 bs))"
  using assms by (simp add: ReadFrom_def Read_bytes_full)

text \<open>The canonical vector with its first byte replaced by 00.\<close>

theorem signature_mismatch_witness:
  "ReadFrom \<lparr>Command = 0, ProxyAddress = None\<rparr> (bytes_NewReader
     [0x00, 0x0A, 0x0D, 0x0A, 0x00, 0x0D, 0x0A, 0x51, 0x55, 0x49, 0x54, 0x0A, 0x21, 0x11, 0x00, 0x0C,
      0x7F, 0x00, 0x00, 0x01, 0x7F, 0x00, 0x00, 0x01, 0xA5, 0xCE, 0x05, 0x3A]) =
   (Returned (12, Some (ProxyProtocolError
      [0x0D, 0x0A, 0x0D, 0x0A, 0x00, 0x0D, 0x0A, 0x51, 0x55, 0x49, 0x54, 0x0A]
      [0x00, 0x0A, 0x0D, 0x0A, 0x00, 0x0D, 0x0A, 0x51, 0x55, 0x49, 0x54, 0x0A])),
    \<lparr>Command = 0, ProxyAddress = None\<rparr>,
    bytes_NewReader [0x21, 0x11, 0x00, 0x0C,
      0x7F, 0x00, 0x00, 0x01, 0x7F, 0x00, 0x00, 0x01, 0xA5, 0xCE, 0x05, 0x3A])"
  using signature_mismatch [of
     "[0x00, 0x0A, 0x0D, 0x0A, 0x00, 0x0D, 0x0A, 0x51, 0x55, 0x49, 0x54, 0x0A, 0x21, 0x11, 0x00, 0x0C,
       0x7F, 0x00, 0x00, 0x01, 0x7F, 0x00, 0x00, 0x01, 0xA5, 0xCE, 0x05, 0x3A]"
     "\<lparr>Command = 0, ProxyAddress = None\<rparr>"]
  by (simp add: ProtocolSignature_def)

section \<open>The fields after the signature\<close>

text \<open>On a byte slice that still holds them, the signature and the three fields after
  it are each delivered in full by their one read.\<close>

lemma Read_signature:
  "Read (bytes_NewReader (ProtocolSignature @ rest)) 12 =
     ((ProtocolSignature, 12, None), bytes_NewReader rest)"
  by (subst Read_bytes_full) (simp_all add: ProtocolSignature_def)

lemma Read_one:
  "Read (bytes_NewReader (b # rest)) (Suc 0) = (([b], Suc 0, None), bytes_NewReader rest)"
  by (subst Read_bytes_full) simp_all

lemma Read_two:
  "Read (bytes_NewReader (b # c # rest)) 2 = (([b, c], 2, None), bytes_NewReader rest)"
  by (subst Read_bytes_full) simp_all

lemma VersionByte_ReadFrom_cons:
  "VersionByte_ReadFrom v (bytes_NewReader (b # rest)) =
     ((VersionByte (drop_bit 4 b) (b AND 15), 1, None), bytes_NewReader rest)"
  by (simp add: VersionByte_ReadFrom_def Read_one)

lemma ProtocolByte_ReadFrom_cons:
  "ProtocolByte_ReadFrom p (bytes_NewReader (b # rest)) =
     ((ProtocolByte (drop_bit 4 b) (b AND 15), 1, None), bytes_NewReader rest)"
  by (simp add: ProtocolByte_ReadFrom_def Read_one)

lemma AddressLength_ReadFrom_cons:
  "AddressLength_ReadFrom a (bytes_NewReader (hi # lo # rest)) =
     ((BigEndian_Uint16 [hi, lo], 2, None), bytes_NewReader rest)"
  by (simp add: AddressLength_ReadFrom_def Read_two)

text \<open>Sixteen-bit lengths and ports: the sign of an \<open>int16\<close>, and writing a value
  big-endian and reading it back.\<close>

lemma sint_small: "uint a < 32768 \<Longrightarrow> sint (a :: 16 word) = uint a"
proof -
  assume small: "uint a < 32768"
  have lower: "- (2 ^ 15) \<le> uint a" by (rule order_trans [of _ 0]) simp_all
  have upper: "uint a < 2 ^ 15" using small by simp
  show ?thesis by (simp add: sint_uint signed_take_bit_int_eq_self [OF lower upper])
qed

lemma sint_neg_iff: "sint (a :: 16 word) < 0 \<longleftrightarrow> 32768 \<le> uint a"
proof (cases "32768 \<le> uint a")
  case True
  have eq: "sint a = signed_take_bit 15 (uint a)" by (simp add: sint_uint)
  have "uint a < 65536" using uint_bounded [of a] by simp
  moreover have "2 ^ 15 \<le> uint a" using True by simp
  then have "signed_take_bit 15 (uint a) \<le> uint a - 2 ^ Suc 15"
    by (rule signed_take_bit_int_less_eq)
  then have "signed_take_bit 15 (uint a) \<le> uint a - 65536" by simp
  ultimately have "signed_take_bit 15 (uint a) < 0" by linarith
  with True eq show ?thesis by (simp only: )
next
  case False
  then show ?thesis by (simp add: sint_small)
qed

lemma BigEndian_roundtrip: "BigEndian_Uint16 (BigEndian_PutUint16 v) = v"
  unfolding BigEndian_Uint16_def BigEndian_PutUint16_def
  apply simp
  apply (rule bit_word_eqI)
  apply (auto simp add: bit_simps)
  done

lemma uint_port: "0 \<le> p \<Longrightarrow> p < 65536 \<Longrightarrow> uint (word_of_int p :: 16 word) = p"
  by (simp add: uint_word_of_int)

text \<open>What \<open>Header.ReadFrom\<close> does after a good signature, check by check.\<close>

lemma ReadFrom_bad_version:
  "drop_bit 4 b12 \<noteq> ProtocolVersion \<Longrightarrow>
   ReadFrom h (bytes_NewReader (ProtocolSignature @ b12 # rest)) =
     (Returned (13, Some (UnsupportedVersion (drop_bit 4 b12))), h, bytes_NewReader rest)"
  by (simp add: ReadFrom_def Read_signature VersionByte_ReadFrom_cons)

lemma ReadFrom_bad_command:
  "drop_bit 4 b12 = ProtocolVersion \<Longrightarrow> b12 AND 15 \<noteq> CommandLOCAL \<Longrightarrow> b12 AND 15 \<noteq> CommandPROXY \<Longrightarrow>
   ReadFrom h (bytes_NewReader (ProtocolSignature @ b12 # rest)) =
     (Returned (13, Some (UnsupportedCommand (b12 AND 15))), h, bytes_NewReader rest)"
  by (simp add: ReadFrom_def Read_signature VersionByte_ReadFrom_cons)

lemma ReadFrom_bad_family:
  assumes "drop_bit 4 b12 = ProtocolVersion"
    and "b12 AND 15 \<in> {CommandLOCAL, CommandPROXY}"
    and "drop_bit 4 b13 \<notin> {AddressFamilyUNSPEC, AddressFamilyINET, AddressFamilyINET6, AddressFamilyUNIX}"
  shows "ReadFrom h (bytes_NewReader (ProtocolSignature @ b12 # b13 # rest)) =
     (Returned (14, Some (UnsupportedAddressFamily (drop_bit 4 b13))),
      h\<lparr>Command := b12 AND 15\<rparr>, bytes_NewReader rest)"
  using assms
  by (auto simp add: ReadFrom_def Read_signature VersionByte_ReadFrom_cons
      ProtocolByte_ReadFrom_cons Let_def)

lemma ReadFrom_bad_transport:
  assumes "drop_bit 4 b12 = ProtocolVersion"
    and "b12 AND 15 \<in> {CommandLOCAL, CommandPROXY}"
    and "drop_bit 4 b13 \<in> {AddressFamilyUNSPEC, AddressFamilyINET, AddressFamilyINET6, AddressFamilyUNIX}"
    and "b13 AND 15 \<notin> {TransportProtocolUNSPEC, TransportProtocolSTREAM, TransportProtocolDGRAM}"
  shows "ReadFrom h (bytes_NewReader (ProtocolSignature @ b12 # b13 # rest)) =
     (Returned (14, Some (UnsupportedTransportProtocol (b13 AND 15))),
      h\<lparr>Command := b12 AND 15\<rparr>, bytes_NewReader rest)"
  using assms
  by (auto simp add: ReadFrom_def Read_signature VersionByte_ReadFrom_cons
      ProtocolByte_ReadFrom_cons Let_def)

lemma ReadFrom_preamble:
  assumes "drop_bit 4 b12 = ProtocolVersion"
    and "b12 AND 15 \<in> {CommandLOCAL, CommandPROXY}"
    and "drop_bit 4 b13 \<in> {AddressFamilyUNSPEC, AddressFamilyINET, AddressFamilyINET6, AddressFamilyUNIX}"
    and "b13 AND 15 \<in> {TransportProtocolUNSPEC, TransportProtocolSTREAM, TransportProtocolDGRAM}"
  shows "ReadFrom h (bytes_NewReader (ProtocolSignature @ b12 # b13 # hi # lo # rest)) =
     (if BigEndian_Uint16 [hi, lo] = 0
      then (Returned (16, None), h\<lparr>Command := b12 AND 15\<rparr>, bytes_NewReader rest)
      else readAddress (h\<lparr>Command := b12 AND 15\<rparr>) 16 (bytes_NewReader rest)
             (ProtocolByte (drop_bit 4 b13) (b13 AND 15)) (BigEndian_Uint16 [hi, lo]))"
  using assms
  by (auto simp add: ReadFrom_def Read_signature VersionByte_ReadFrom_cons
      ProtocolByte_ReadFrom_cons AddressLength_ReadFrom_cons Let_def)

text \<open>The default branch of \<open>switch protocol\<close>, taken by every pair that is not one of
  the six cases.\<close>

lemma readAddress_default:
  assumes "(f, t) \<notin> {(AddressFamilyINET, TransportProtocolSTREAM), (AddressFamilyINET, TransportProtocolDGRAM),
                      (AddressFamilyINET6, TransportProtocolSTREAM), (AddressFamilyINET6, TransportProtocolDGRAM),
                      (AddressFamilyUNIX, TransportProtocolSTREAM), (AddressFamilyUNIX, TransportProtocolDGRAM)}"
  shows "readAddress h m r (ProtocolByte f t) a =
     (case make_len a of
        Panicked p \<Rightarrow> (Panicked p, h, r)
      | Returned len \<Rightarrow>
         (case Read r len of ((data, n, err), r') \<Rightarrow>
            (case err of
               Some e \<Rightarrow> (Returned (m + n, Some e), h, r')
             | None \<Rightarrow> (Returned (m + n, Some (TransportProtocolError t f a)), h, r'))))"
  using assms by (auto simp add: readAddress_def Let_def split: result.splits prod.splits option.splits)

lemma readAddress_negative:
  assumes "(f, t) \<notin> {(AddressFamilyINET, TransportProtocolSTREAM), (AddressFamilyINET, TransportProtocolDGRAM),
                      (AddressFamilyINET6, TransportProtocolSTREAM), (AddressFamilyINET6, TransportProtocolDGRAM),
                      (AddressFamilyUNIX, TransportProtocolSTREAM), (AddressFamilyUNIX, TransportProtocolDGRAM)}"
    and "sint a < 0"
  shows "readAddress h m r (ProtocolByte f t) a = (Panicked MakesliceLenOutOfRange, h, r)"
  using assms(2) by (simp add: readAddress_default [OF assms(1)] make_len_def)

lemma readAddress_drain:
  assumes "(f, t) \<notin> {(AddressFamilyINET, TransportProtocolSTREAM), (AddressFamilyINET, TransportProtocolDGRAM),
                      (AddressFamilyINET6, TransportProtocolSTREAM), (AddressFamilyINET6, TransportProtocolDGRAM),
                      (AddressFamilyUNIX, TransportProtocolSTREAM), (AddressFamilyUNIX, TransportProtocolDGRAM)}"
    and "0 < sint a" and "nat (sint a) \<le> length bs"
  shows "readAddress h m (bytes_NewReader bs) (ProtocolByte f t) a =
           (Returned (m + nat (sint a), Some (TransportProtocolError t f a)), h,
            bytes_NewReader (drop (nat (sint a)) bs))"
  using assms(2,3) by (simp add: readAddress_default [OF assms(1)] make_len_def Read_bytes_full)

section \<open>Version, command, family and transport\<close>

text \<open>
  C8. After a good signature the checks run in the order version, command, family,
  transport, each on its nibble:
  a version nibble other than 2 gives the "unsupported protocol version" error;
  with version 2, a command nibble other than LOCAL (0) and PROXY (1) gives the
  "unsupported command" error;
  with both good, a family nibble outside UNSPEC, INET, INET6, UNIX (0 to 3) gives the
  "unsupported address family" error;
  with the family good too, a transport nibble outside UNSPEC, STREAM, DGRAM (0 to 2)
  gives the "unsupported transport protocol" error.
  The first two return the count 13, the last two the count 14. Whenever decoding
  returns without an error, all four nibbles are in range: reserved values are not
  accepted.
\<close>

theorem reserved_nibbles_rejected:
  "(drop_bit 4 b12 \<noteq> ProtocolVersion \<longrightarrow>
      ReadFrom h (bytes_NewReader (ProtocolSignature @ b12 # rest)) =
        (Returned (13, Some (UnsupportedVersion (drop_bit 4 b12))), h, bytes_NewReader rest)) \<and>
   (drop_bit 4 b12 = ProtocolVersion \<and> b12 AND 15 \<notin> {CommandLOCAL, CommandPROXY} \<longrightarrow>
      ReadFrom h (bytes_NewReader (ProtocolSignature @ b12 # rest)) =
        (Returned (13, Some (UnsupportedCommand (b12 AND 15))), h, bytes_NewReader rest)) \<and>
   (drop_bit 4 b12 = ProtocolVersion \<and> b12 AND 15 \<in> {CommandLOCAL, CommandPROXY} \<and>
    drop_bit 4 b13 \<notin> {AddressFamilyUNSPEC, AddressFamilyINET, AddressFamilyINET6, AddressFamilyUNIX} \<longrightarrow>
      ReadFrom h (bytes_NewReader (ProtocolSignature @ b12 # b13 # rest)) =
        (Returned (14, Some (UnsupportedAddressFamily (drop_bit 4 b13))),
         h\<lparr>Command := b12 AND 15\<rparr>, bytes_NewReader rest)) \<and>
   (drop_bit 4 b12 = ProtocolVersion \<and> b12 AND 15 \<in> {CommandLOCAL, CommandPROXY} \<and>
    drop_bit 4 b13 \<in> {AddressFamilyUNSPEC, AddressFamilyINET, AddressFamilyINET6, AddressFamilyUNIX} \<and>
    b13 AND 15 \<notin> {TransportProtocolUNSPEC, TransportProtocolSTREAM, TransportProtocolDGRAM} \<longrightarrow>
      ReadFrom h (bytes_NewReader (ProtocolSignature @ b12 # b13 # rest)) =
        (Returned (14, Some (UnsupportedTransportProtocol (b13 AND 15))),
         h\<lparr>Command := b12 AND 15\<rparr>, bytes_NewReader rest)) \<and>
   (ReadFrom h (bytes_NewReader (ProtocolSignature @ b12 # b13 # rest)) = (Returned (m, None), h', r') \<longrightarrow>
      drop_bit 4 b12 = ProtocolVersion \<and> b12 AND 15 \<in> {CommandLOCAL, CommandPROXY} \<and>
      drop_bit 4 b13 \<in> {AddressFamilyUNSPEC, AddressFamilyINET, AddressFamilyINET6, AddressFamilyUNIX} \<and>
      b13 AND 15 \<in> {TransportProtocolUNSPEC, TransportProtocolSTREAM, TransportProtocolDGRAM})"
proof (intro conjI impI)
  assume "drop_bit 4 b12 \<noteq> ProtocolVersion"
  then show "ReadFrom h (bytes_NewReader (ProtocolSignature @ b12 # rest)) =
        (Returned (13, Some (UnsupportedVersion (drop_bit 4 b12))), h, bytes_NewReader rest)"
    by (rule ReadFrom_bad_version)
next
  assume "drop_bit 4 b12 = ProtocolVersion \<and> b12 AND 15 \<notin> {CommandLOCAL, CommandPROXY}"
  then show "ReadFrom h (bytes_NewReader (ProtocolSignature @ b12 # rest)) =
        (Returned (13, Some (UnsupportedCommand (b12 AND 15))), h, bytes_NewReader rest)"
    by (simp add: ReadFrom_bad_command)
next
  assume "drop_bit 4 b12 = ProtocolVersion \<and> b12 AND 15 \<in> {CommandLOCAL, CommandPROXY} \<and>
    drop_bit 4 b13 \<notin> {AddressFamilyUNSPEC, AddressFamilyINET, AddressFamilyINET6, AddressFamilyUNIX}"
  then show "ReadFrom h (bytes_NewReader (ProtocolSignature @ b12 # b13 # rest)) =
        (Returned (14, Some (UnsupportedAddressFamily (drop_bit 4 b13))),
         h\<lparr>Command := b12 AND 15\<rparr>, bytes_NewReader rest)"
    by (intro ReadFrom_bad_family) simp_all
next
  assume "drop_bit 4 b12 = ProtocolVersion \<and> b12 AND 15 \<in> {CommandLOCAL, CommandPROXY} \<and>
    drop_bit 4 b13 \<in> {AddressFamilyUNSPEC, AddressFamilyINET, AddressFamilyINET6, AddressFamilyUNIX} \<and>
    b13 AND 15 \<notin> {TransportProtocolUNSPEC, TransportProtocolSTREAM, TransportProtocolDGRAM}"
  then show "ReadFrom h (bytes_NewReader (ProtocolSignature @ b12 # b13 # rest)) =
        (Returned (14, Some (UnsupportedTransportProtocol (b13 AND 15))),
         h\<lparr>Command := b12 AND 15\<rparr>, bytes_NewReader rest)"
    by (intro ReadFrom_bad_transport) simp_all
next
  assume accepted:
    "ReadFrom h (bytes_NewReader (ProtocolSignature @ b12 # b13 # rest)) = (Returned (m, None), h', r')"
  show "drop_bit 4 b12 = ProtocolVersion"
    using accepted ReadFrom_bad_version [of b12 h "b13 # rest"] by auto
  then show "b12 AND 15 \<in> {CommandLOCAL, CommandPROXY}"
    using accepted ReadFrom_bad_command [of b12 h "b13 # rest"] by auto
  then show "drop_bit 4 b13 \<in> {AddressFamilyUNSPEC, AddressFamilyINET, AddressFamilyINET6, AddressFamilyUNIX}"
    using accepted \<open>drop_bit 4 b12 = ProtocolVersion\<close> ReadFrom_bad_family [of b12 b13 h rest] by auto
  then show "b13 AND 15 \<in> {TransportProtocolUNSPEC, TransportProtocolSTREAM, TransportProtocolDGRAM}"
    using accepted \<open>drop_bit 4 b12 = ProtocolVersion\<close> \<open>b12 AND 15 \<in> {CommandLOCAL, CommandPROXY}\<close>
      ReadFrom_bad_transport [of b12 b13 h rest] by auto
qed

text \<open>One input for each rejection (version 3, command 5, family 5, transport 5) and one
  accepted input (LOCAL, UNSPEC, length 0).\<close>

theorem reserved_nibbles_rejected_witness:
  "ReadFrom \<lparr>Command = 0, ProxyAddress = None\<rparr> (bytes_NewReader (ProtocolSignature @ [0x31])) =
     (Returned (13, Some (UnsupportedVersion 3)), \<lparr>Command = 0, ProxyAddress = None\<rparr>, bytes_NewReader []) \<and>
   ReadFrom \<lparr>Command = 0, ProxyAddress = None\<rparr> (bytes_NewReader (ProtocolSignature @ [0x25])) =
     (Returned (13, Some (UnsupportedCommand 5)), \<lparr>Command = 0, ProxyAddress = None\<rparr>, bytes_NewReader []) \<and>
   ReadFrom \<lparr>Command = 0, ProxyAddress = None\<rparr> (bytes_NewReader (ProtocolSignature @ [0x21, 0x51])) =
     (Returned (14, Some (UnsupportedAddressFamily 5)), \<lparr>Command = 1, ProxyAddress = None\<rparr>, bytes_NewReader []) \<and>
   ReadFrom \<lparr>Command = 0, ProxyAddress = None\<rparr> (bytes_NewReader (ProtocolSignature @ [0x21, 0x15])) =
     (Returned (14, Some (UnsupportedTransportProtocol 5)), \<lparr>Command = 1, ProxyAddress = None\<rparr>, bytes_NewReader []) \<and>
   ReadFrom \<lparr>Command = 1, ProxyAddress = None\<rparr>
       (bytes_NewReader (ProtocolSignature @ [0x20, 0x00, 0x00, 0x00])) =
     (Returned (16, None), \<lparr>Command = 0, ProxyAddress = None\<rparr>, bytes_NewReader []) \<and>
   drop_bit 4 (0x20 :: byte) = ProtocolVersion \<and> (0x20 :: byte) AND 15 = CommandLOCAL \<and>
   drop_bit 4 (0x00 :: byte) = AddressFamilyUNSPEC \<and> (0x00 :: byte) AND 15 = TransportProtocolUNSPEC"
proof -
  have accepted:
    "ReadFrom \<lparr>Command = 1, ProxyAddress = None\<rparr>
       (bytes_NewReader (ProtocolSignature @ [0x20, 0x00, 0x00, 0x00])) =
     (Returned (16, None), \<lparr>Command = 0, ProxyAddress = None\<rparr>, bytes_NewReader [])"
    by (simp add: ReadFrom_def field_readers Read_bytes_full BigEndian_Uint16_def constants)
  show ?thesis
    using accepted
      reserved_nibbles_rejected [where ?b12.0 = "0x31" and rest = "[]" and h = "\<lparr>Command = 0, ProxyAddress = None\<rparr>"]
      reserved_nibbles_rejected [where ?b12.0 = "0x25" and rest = "[]" and h = "\<lparr>Command = 0, ProxyAddress = None\<rparr>"]
      reserved_nibbles_rejected [where ?b12.0 = "0x21" and ?b13.0 = "0x51" and rest = "[]"
        and h = "\<lparr>Command = 0, ProxyAddress = None\<rparr>"]
      reserved_nibbles_rejected [where ?b12.0 = "0x21" and ?b13.0 = "0x15" and rest = "[]"
        and h = "\<lparr>Command = 0, ProxyAddress = None\<rparr>"]
      reserved_nibbles_rejected [where ?b12.0 = "0x20" and ?b13.0 = "0x00" and rest = "[0x00, 0x00]"
        and h = "\<lparr>Command = 1, ProxyAddress = None\<rparr>" and m = 16
        and h' = "\<lparr>Command = 0, ProxyAddress = None\<rparr>" and r' = "bytes_NewReader []"]
    by (simp add: constants)
qed


section \<open>Pairs without a payload layout\<close>

lemmas six_pairs_defs = AddressFamilyINET_def AddressFamilyINET6_def AddressFamilyUNIX_def
  AddressFamilyUNSPEC_def TransportProtocolSTREAM_def TransportProtocolDGRAM_def TransportProtocolUNSPEC_def

text \<open>
  A pair of valid nibbles that is not one of the six cases, with a declared length from
  1 to 32767 and at least that many bytes after the header: exactly that many bytes are
  taken from the source and a \<open>TransportProtocolError\<close> with the transport, the family
  and the declared length is returned.
\<close>

lemma unrecognised_pair_drained:
  assumes "drop_bit 4 b12 = ProtocolVersion" and "b12 AND 15 \<in> {CommandLOCAL, CommandPROXY}"
    and "drop_bit 4 b13 \<in> {AddressFamilyUNSPEC, AddressFamilyINET, AddressFamilyINET6, AddressFamilyUNIX}"
    and "b13 AND 15 \<in> {TransportProtocolUNSPEC, TransportProtocolSTREAM, TransportProtocolDGRAM}"
    and "(drop_bit 4 b13, b13 AND 15) \<notin>
       {(AddressFamilyINET, TransportProtocolSTREAM), (AddressFamilyINET, TransportProtocolDGRAM),
        (AddressFamilyINET6, TransportProtocolSTREAM), (AddressFamilyINET6, TransportProtocolDGRAM),
        (AddressFamilyUNIX, TransportProtocolSTREAM), (AddressFamilyUNIX, TransportProtocolDGRAM)}"
    and "0 < unat (BigEndian_Uint16 [hi, lo])" and "unat (BigEndian_Uint16 [hi, lo]) < 32768"
    and "unat (BigEndian_Uint16 [hi, lo]) \<le> length payload"
  shows "ReadFrom h (bytes_NewReader (ProtocolSignature @ b12 # b13 # hi # lo # payload)) =
     (Returned (16 + unat (BigEndian_Uint16 [hi, lo]),
                Some (TransportProtocolError (b13 AND 15) (drop_bit 4 b13) (BigEndian_Uint16 [hi, lo]))),
      h\<lparr>Command := b12 AND 15\<rparr>,
      bytes_NewReader (drop (unat (BigEndian_Uint16 [hi, lo])) payload))"
proof -
  let ?a = "BigEndian_Uint16 [hi, lo]"
  from assms(6) have nonzero: "?a \<noteq> 0" by auto
  have u: "uint ?a = int (unat ?a)" by (rule uint_nat)
  with assms(7) have "uint ?a < 32768" by linarith
  then have s: "sint ?a = uint ?a" by (rule sint_small)
  then have n: "nat (sint ?a) = unat ?a" by simp
  have pos: "0 < sint ?a" using assms(6) u s by linarith
  have le: "nat (sint ?a) \<le> length payload" using assms(8) n by linarith
  have "ReadFrom h (bytes_NewReader (ProtocolSignature @ b12 # b13 # hi # lo # payload)) =
      readAddress (h\<lparr>Command := b12 AND 15\<rparr>) 16 (bytes_NewReader payload)
             (ProtocolByte (drop_bit 4 b13) (b13 AND 15)) ?a"
    using assms(1-4) by (subst ReadFrom_preamble) (simp_all only: nonzero if_False)
  also have "\<dots> = (Returned (16 + nat (sint ?a), Some (TransportProtocolError (b13 AND 15) (drop_bit 4 b13) ?a)),
      h\<lparr>Command := b12 AND 15\<rparr>, bytes_NewReader (drop (nat (sint ?a)) payload))"
    by (rule readAddress_drain [OF assms(5) pos le])
  finally show ?thesis by (simp only: n)
qed

text \<open>
  C3. The drain of an unrecognised pair holds for declared lengths up to 32767 only
  (\<open>unrecognised_pair_drained\<close>). At the input with family UNSPEC, transport STREAM
  and the length bytes 80 00 (32768), whatever follows, decoding panics in
  \<open>make([]byte, addressLength)\<close>: nothing is drained and no error is returned.
\<close>

theorem drain_of_length_32768_panics:
  "ReadFrom h (bytes_NewReader (ProtocolSignature @ [0x21, 0x01, 0x80, 0x00] @ payload)) =
     (Panicked MakesliceLenOutOfRange, h\<lparr>Command := CommandPROXY\<rparr>, bytes_NewReader payload)"
proof -
  have len: "BigEndian_Uint16 [0x80, 0x00] = 0x8000" by (simp add: BigEndian_Uint16_def)
  have "ReadFrom h (bytes_NewReader (ProtocolSignature @ 0x21 # 0x01 # 0x80 # 0x00 # payload)) =
      readAddress (h\<lparr>Command := 0x21 AND 15\<rparr>) 16 (bytes_NewReader payload)
             (ProtocolByte (drop_bit 4 0x01) (0x01 AND 15)) (BigEndian_Uint16 [0x80, 0x00])"
    by (subst ReadFrom_preamble) (simp_all add: len six_pairs_defs ProtocolVersion_def CommandLOCAL_def CommandPROXY_def)
  also have "\<dots> = (Panicked MakesliceLenOutOfRange, h\<lparr>Command := 0x21 AND 15\<rparr>, bytes_NewReader payload)"
    by (intro readAddress_negative) (simp_all add: len six_pairs_defs)
  finally show ?thesis by (simp add: CommandPROXY_def)
qed

text \<open>
  C10. \<open>AddressLength\<close> is an \<open>int16\<close>: when the two length bytes encode 32768 or
  more, the length that \<open>AddressLength.ReadFrom\<close> stores is negative. If moreover the
  header passes the four nibble checks and its pair is not one of the six cases,
  \<open>Header.ReadFrom\<close> panics in the default branch (\<open>make\<close> with a negative length)
  and returns nothing; the command has been stored and the payload is untouched.
\<close>

theorem negative_length_panics:
  assumes "32768 \<le> uint (BigEndian_Uint16 [hi, lo])"
  shows "sint (fst (fst (AddressLength_ReadFrom a0 (bytes_NewReader (hi # lo # rest))))) < 0 \<and>
    (drop_bit 4 b12 = ProtocolVersion \<and> b12 AND 15 \<in> {CommandLOCAL, CommandPROXY} \<and>
     drop_bit 4 b13 \<in> {AddressFamilyUNSPEC, AddressFamilyINET, AddressFamilyINET6, AddressFamilyUNIX} \<and>
     b13 AND 15 \<in> {TransportProtocolUNSPEC, TransportProtocolSTREAM, TransportProtocolDGRAM} \<and>
     (drop_bit 4 b13, b13 AND 15) \<notin>
       {(AddressFamilyINET, TransportProtocolSTREAM), (AddressFamilyINET, TransportProtocolDGRAM),
        (AddressFamilyINET6, TransportProtocolSTREAM), (AddressFamilyINET6, TransportProtocolDGRAM),
        (AddressFamilyUNIX, TransportProtocolSTREAM), (AddressFamilyUNIX, TransportProtocolDGRAM)} \<longrightarrow>
     ReadFrom h (bytes_NewReader (ProtocolSignature @ b12 # b13 # hi # lo # rest)) =
       (Panicked MakesliceLenOutOfRange, h\<lparr>Command := b12 AND 15\<rparr>, bytes_NewReader rest))"
proof (intro conjI impI)
  have negative: "sint (BigEndian_Uint16 [hi, lo]) < 0"
    using assms by (simp only: sint_neg_iff)
  then show "sint (fst (fst (AddressLength_ReadFrom a0 (bytes_NewReader (hi # lo # rest))))) < 0"
    by (simp only: AddressLength_ReadFrom_cons fst_conv)
  assume pre: "drop_bit 4 b12 = ProtocolVersion \<and> b12 AND 15 \<in> {CommandLOCAL, CommandPROXY} \<and>
     drop_bit 4 b13 \<in> {AddressFamilyUNSPEC, AddressFamilyINET, AddressFamilyINET6, AddressFamilyUNIX} \<and>
     b13 AND 15 \<in> {TransportProtocolUNSPEC, TransportProtocolSTREAM, TransportProtocolDGRAM} \<and>
     (drop_bit 4 b13, b13 AND 15) \<notin>
       {(AddressFamilyINET, TransportProtocolSTREAM), (AddressFamilyINET, TransportProtocolDGRAM),
        (AddressFamilyINET6, TransportProtocolSTREAM), (AddressFamilyINET6, TransportProtocolDGRAM),
        (AddressFamilyUNIX, TransportProtocolSTREAM), (AddressFamilyUNIX, TransportProtocolDGRAM)}"
  from negative have nonzero: "BigEndian_Uint16 [hi, lo] \<noteq> 0" by auto
  from pre have "ReadFrom h (bytes_NewReader (ProtocolSignature @ b12 # b13 # hi # lo # rest)) =
      readAddress (h\<lparr>Command := b12 AND 15\<rparr>) 16 (bytes_NewReader rest)
             (ProtocolByte (drop_bit 4 b13) (b13 AND 15)) (BigEndian_Uint16 [hi, lo])"
    by (subst ReadFrom_preamble) (simp_all only: nonzero if_False)
  also from pre negative have "\<dots> = (Panicked MakesliceLenOutOfRange, h\<lparr>Command := b12 AND 15\<rparr>, bytes_NewReader rest)"
    by (intro readAddress_negative) simp_all
  finally show "ReadFrom h (bytes_NewReader (ProtocolSignature @ b12 # b13 # hi # lo # rest)) =
       (Panicked MakesliceLenOutOfRange, h\<lparr>Command := b12 AND 15\<rparr>, bytes_NewReader rest)" .
qed

text \<open>Family UNSPEC, transport STREAM, length bytes FF FE.\<close>

theorem negative_length_panics_witness:
  "sint (fst (fst (AddressLength_ReadFrom 0 (bytes_NewReader [0xFF, 0xFE, 0x07])))) < 0 \<and>
   ReadFrom \<lparr>Command = 0, ProxyAddress = None\<rparr>
     (bytes_NewReader (ProtocolSignature @ [0x21, 0x01, 0xFF, 0xFE, 0x07])) =
       (Panicked MakesliceLenOutOfRange, \<lparr>Command = 1, ProxyAddress = None\<rparr>, bytes_NewReader [0x07])"
  using negative_length_panics [where hi = "0xFF" and lo = "0xFE" and rest = "[0x07]" and ?a0.0 = 0
      and ?b12.0 = "0x21" and ?b13.0 = "0x01" and h = "\<lparr>Command = 0, ProxyAddress = None\<rparr>"]
  by (simp add: BigEndian_Uint16_def six_pairs_defs ProtocolVersion_def CommandLOCAL_def CommandPROXY_def)

section \<open>The six recognised pairs\<close>

text \<open>On a byte slice that holds them, the endpoints of each variant are read in full:
  12 bytes for IPv4, 36 for IPv6, 216 for UNIX. The declared length plays no part.\<close>

lemma readIP_bytes:
  "0 < n \<Longrightarrow> n \<le> length bs \<Longrightarrow>
   readIP (bytes_NewReader bs) n = ((Some (take n bs), n, None), bytes_NewReader (drop n bs))"
  by (simp add: readIP_def Read_bytes_full)

lemma readPort_bytes:
  "2 \<le> length bs \<Longrightarrow>
   readPort (bytes_NewReader bs) = ((BigEndian_Uint16 (take 2 bs), 2, None), bytes_NewReader (drop 2 bs))"
  by (simp add: readPort_def Read_bytes_full)

lemma readIPsAndPorts_bytes:
  assumes "0 < n" and "n + n + 4 \<le> length bs"
  shows "readIPsAndPorts (bytes_NewReader bs) n =
     ((Some \<lparr>sourceIP = Some (take n bs), destinationIP = Some (take n (drop n bs)),
             sourcePort = BigEndian_Uint16 (take 2 (drop n (drop n bs))),
             destinationPort = BigEndian_Uint16 (take 2 (drop 2 (drop n (drop n bs))))\<rparr>,
       n + n + 2 + 2, None),
      bytes_NewReader (drop 2 (drop 2 (drop n (drop n bs)))))"
proof -
  have 1: "readIP (bytes_NewReader bs) n = ((Some (take n bs), n, None), bytes_NewReader (drop n bs))"
    using assms by (intro readIP_bytes) simp_all
  have 2: "readIP (bytes_NewReader (drop n bs)) n =
      ((Some (take n (drop n bs)), n, None), bytes_NewReader (drop n (drop n bs)))"
    using assms by (intro readIP_bytes) simp_all
  have 3: "readPort (bytes_NewReader (drop n (drop n bs))) =
      ((BigEndian_Uint16 (take 2 (drop n (drop n bs))), 2, None),
       bytes_NewReader (drop 2 (drop n (drop n bs))))"
    using assms by (intro readPort_bytes) simp_all
  have 4: "readPort (bytes_NewReader (drop 2 (drop n (drop n bs)))) =
      ((BigEndian_Uint16 (take 2 (drop 2 (drop n (drop n bs)))), 2, None),
       bytes_NewReader (drop 2 (drop 2 (drop n (drop n bs)))))"
    using assms by (intro readPort_bytes) simp_all
  show ?thesis
    by (simp only: readIPsAndPorts_def 1 2 3 4 Let_def prod.case option.case add_0)
qed

lemma readUnix_bytes:
  assumes "216 \<le> length bs"
  shows "readUnix (bytes_NewReader bs) =
     ((Some \<lparr>SourceAddr = take 108 bs, DestinationAddr = take 108 (drop 108 bs)\<rparr>, 216, None),
      bytes_NewReader (drop 216 bs))"
proof -
  have 1: "Read (bytes_NewReader bs) 108 = ((take 108 bs, 108, None), bytes_NewReader (drop 108 bs))"
    using assms by (intro Read_bytes_full) simp_all
  have 2: "Read (bytes_NewReader (drop 108 bs)) 108 =
      ((take 108 (drop 108 bs), 108, None), bytes_NewReader (drop 108 (drop 108 bs)))"
    using assms by (intro Read_bytes_full) simp_all
  show ?thesis by (simp add: readUnix_def 1 2)
qed

lemma readIPCase_bytes:
  assumes "0 < n" and "n + n + 4 \<le> length bs"
  shows "readIPCase h m (bytes_NewReader bs) n mk variant =
     (Returned (m + (n + n + 2 + 2), None),
      h\<lparr>ProxyAddress := Some (variant
          (mk (take n bs) (uint (BigEndian_Uint16 (take 2 (drop n (drop n bs))))) [])
          (mk (take n (drop n bs)) (uint (BigEndian_Uint16 (take 2 (drop 2 (drop n (drop n bs)))))) []))\<rparr>,
      bytes_NewReader (drop 2 (drop 2 (drop n (drop n bs)))))"
  by (simp add: readIPCase_def readIPsAndPorts_bytes [OF assms] ipEndpoints_def deref_def)

lemma readUnixCase_bytes:
  assumes "216 \<le> length bs"
  shows "readUnixCase h m (bytes_NewReader bs) network =
     (Returned (m + 216, None),
      h\<lparr>ProxyAddress := Some (UnixAddr \<lparr>Name = take 108 bs, Net = network\<rparr>
                                         \<lparr>Name = take 108 (drop 108 bs), Net = network\<rparr>)\<rparr>,
      bytes_NewReader (drop 216 bs))"
  by (simp add: readUnixCase_def readUnix_bytes [OF assms] unixEndpoints_def deref_def)

lemma ipv4_case:
  assumes "12 \<le> length bs" and "mk = TCPAddr \<and> t = TransportProtocolSTREAM \<or> mk = UDPAddr \<and> t = TransportProtocolDGRAM"
  shows "\<exists>a. readIPCase h m (bytes_NewReader bs) 4 mk IPv4Address =
           (Returned (m + unat (getLength a), None), h\<lparr>ProxyAddress := Some a\<rparr>,
            bytes_NewReader (drop (unat (getLength a)) bs)) \<and>
         getSignature a = Returned (ProtocolByte AddressFamilyINET t)"
proof -
  let ?a = "IPv4Address
      (mk (take 4 bs) (uint (BigEndian_Uint16 (take 2 (drop 4 (drop 4 bs))))) [])
      (mk (take 4 (drop 4 bs)) (uint (BigEndian_Uint16 (take 2 (drop 2 (drop 4 (drop 4 bs)))))) [])"
  have len: "(4::nat) + 4 + 4 \<le> length bs" using assms(1) by simp
  have "readIPCase h m (bytes_NewReader bs) 4 mk IPv4Address =
      (Returned (m + 12, None), h\<lparr>ProxyAddress := Some ?a\<rparr>, bytes_NewReader (drop 12 bs))"
    by (subst readIPCase_bytes [OF _ len]) simp_all
  moreover have "getSignature ?a = Returned (ProtocolByte AddressFamilyINET t)"
    using assms(2) by (auto simp add: getSignature_def signatureOf_def getTransportProtocol_def)
  moreover have "unat (getLength ?a) = 12" by (simp add: getLength_def)
  ultimately show ?thesis by (intro exI [of _ ?a]) simp
qed

lemma ipv6_case:
  assumes "36 \<le> length bs" and "mk = TCPAddr \<and> t = TransportProtocolSTREAM \<or> mk = UDPAddr \<and> t = TransportProtocolDGRAM"
  shows "\<exists>a. readIPCase h m (bytes_NewReader bs) 16 mk IPv6Address =
           (Returned (m + unat (getLength a), None), h\<lparr>ProxyAddress := Some a\<rparr>,
            bytes_NewReader (drop (unat (getLength a)) bs)) \<and>
         getSignature a = Returned (ProtocolByte AddressFamilyINET6 t)"
proof -
  let ?a = "IPv6Address
      (mk (take 16 bs) (uint (BigEndian_Uint16 (take 2 (drop 16 (drop 16 bs))))) [])
      (mk (take 16 (drop 16 bs)) (uint (BigEndian_Uint16 (take 2 (drop 2 (drop 16 (drop 16 bs)))))) [])"
  have len: "(16::nat) + 16 + 4 \<le> length bs" using assms(1) by simp
  have "readIPCase h m (bytes_NewReader bs) 16 mk IPv6Address =
      (Returned (m + 36, None), h\<lparr>ProxyAddress := Some ?a\<rparr>, bytes_NewReader (drop 36 bs))"
    by (subst readIPCase_bytes [OF _ len]) simp_all
  moreover have "getSignature ?a = Returned (ProtocolByte AddressFamilyINET6 t)"
    using assms(2) by (auto simp add: getSignature_def signatureOf_def getTransportProtocol_def)
  moreover have "unat (getLength ?a) = 36" by (simp add: getLength_def)
  ultimately show ?thesis by (intro exI [of _ ?a]) simp
qed

lemma unix_case:
  assumes "216 \<le> length bs" and "network = ''unixpacket'' \<or> network = ''unixgram''"
  shows "\<exists>a. readUnixCase h m (bytes_NewReader bs) network =
           (Returned (m + unat (getLength a), None), h\<lparr>ProxyAddress := Some a\<rparr>,
            bytes_NewReader (drop (unat (getLength a)) bs)) \<and>
         getSignature a = Returned (ProtocolByte AddressFamilyUNIX
           (if network = ''unixgram'' then TransportProtocolDGRAM else TransportProtocolSTREAM))"
proof -
  let ?a = "UnixAddr \<lparr>Name = take 108 bs, Net = network\<rparr> \<lparr>Name = take 108 (drop 108 bs), Net = network\<rparr>"
  have "readUnixCase h m (bytes_NewReader bs) network =
      (Returned (m + 216, None), h\<lparr>ProxyAddress := Some ?a\<rparr>, bytes_NewReader (drop 216 bs))"
    by (rule readUnixCase_bytes [OF assms(1)])
  moreover have "getSignature ?a = Returned (ProtocolByte AddressFamilyUNIX
           (if network = ''unixgram'' then TransportProtocolDGRAM else TransportProtocolSTREAM))"
    by (simp add: getSignature_def signatureOf_def getTransportProtocol_def)
  moreover have "unat (getLength ?a) = 216" by (simp add: getLength_def)
  ultimately show ?thesis by (intro exI [of _ ?a]) simp
qed

text \<open>
  C2 (as the code has it). For a header that passes the nibble checks, names one of
  the six recognised pairs and declares any nonzero length, equal to the variant's
  wire size or not, on a source that holds at least the variant's wire size after the
  header: decoding returns no error, attaches an address of the variant that the pair
  names, and consumes 16 bytes plus the variant's wire size (12, 36 or 216), not the
  declared length. \<open>Header.ReadFrom\<close> never compares the two, and the package has no
  error for a length mismatch.
\<close>

theorem declared_length_ignored:
  assumes v: "drop_bit 4 b12 = ProtocolVersion" and c: "b12 AND 15 \<in> {CommandLOCAL, CommandPROXY}"
    and six: "(drop_bit 4 b13, b13 AND 15) \<in>
       {(AddressFamilyINET, TransportProtocolSTREAM), (AddressFamilyINET, TransportProtocolDGRAM),
        (AddressFamilyINET6, TransportProtocolSTREAM), (AddressFamilyINET6, TransportProtocolDGRAM),
        (AddressFamilyUNIX, TransportProtocolSTREAM), (AddressFamilyUNIX, TransportProtocolDGRAM)}"
    and nz: "BigEndian_Uint16 [hi, lo] \<noteq> 0"
    and enough: "(if drop_bit 4 b13 = AddressFamilyINET then 12
                  else if drop_bit 4 b13 = AddressFamilyINET6 then 36 else 216) \<le> length payload"
  shows "\<exists>a. ReadFrom h (bytes_NewReader (ProtocolSignature @ b12 # b13 # hi # lo # payload)) =
           (Returned (16 + unat (getLength a), None),
            h\<lparr>Command := b12 AND 15, ProxyAddress := Some a\<rparr>,
            bytes_NewReader (drop (unat (getLength a)) payload)) \<and>
         getSignature a = Returned (ProtocolByte (drop_bit 4 b13) (b13 AND 15))"
proof -
  let ?h = "h\<lparr>Command := b12 AND 15\<rparr>"
  let ?r = "bytes_NewReader payload"
  let ?len = "BigEndian_Uint16 [hi, lo]"
  from six have fam: "drop_bit 4 b13 \<in> {AddressFamilyUNSPEC, AddressFamilyINET, AddressFamilyINET6, AddressFamilyUNIX}"
    and tr: "b13 AND 15 \<in> {TransportProtocolUNSPEC, TransportProtocolSTREAM, TransportProtocolDGRAM}"
    by auto
  have pre: "ReadFrom h (bytes_NewReader (ProtocolSignature @ b12 # b13 # hi # lo # payload)) =
      readAddress ?h 16 ?r (ProtocolByte (drop_bit 4 b13) (b13 AND 15)) ?len"
    using v c fam tr by (subst ReadFrom_preamble) (simp_all only: nz if_False)
  from six consider
      (tcp4) "drop_bit 4 b13 = AddressFamilyINET" "b13 AND 15 = TransportProtocolSTREAM"
    | (udp4) "drop_bit 4 b13 = AddressFamilyINET" "b13 AND 15 = TransportProtocolDGRAM"
    | (tcp6) "drop_bit 4 b13 = AddressFamilyINET6" "b13 AND 15 = TransportProtocolSTREAM"
    | (udp6) "drop_bit 4 b13 = AddressFamilyINET6" "b13 AND 15 = TransportProtocolDGRAM"
    | (unixstream) "drop_bit 4 b13 = AddressFamilyUNIX" "b13 AND 15 = TransportProtocolSTREAM"
    | (unixgram) "drop_bit 4 b13 = AddressFamilyUNIX" "b13 AND 15 = TransportProtocolDGRAM"
    by auto
  then show ?thesis
  proof cases
    case tcp4
    with enough have "12 \<le> length payload" by simp
    from ipv4_case [OF this, of TCPAddr "b13 AND 15" ?h 16] tcp4 show ?thesis
      by (simp add: pre readAddress_def six_pairs_defs)
  next
    case udp4
    with enough have "12 \<le> length payload" by simp
    from ipv4_case [OF this, of UDPAddr "b13 AND 15" ?h 16] udp4 show ?thesis
      by (simp add: pre readAddress_def six_pairs_defs)
  next
    case tcp6
    with enough have "36 \<le> length payload" by (simp add: six_pairs_defs)
    from ipv6_case [OF this, of TCPAddr "b13 AND 15" ?h 16] tcp6 show ?thesis
      by (simp add: pre readAddress_def six_pairs_defs)
  next
    case udp6
    with enough have "36 \<le> length payload" by (simp add: six_pairs_defs)
    from ipv6_case [OF this, of UDPAddr "b13 AND 15" ?h 16] udp6 show ?thesis
      by (simp add: pre readAddress_def six_pairs_defs)
  next
    case unixstream
    with enough have "216 \<le> length payload" by (simp add: six_pairs_defs)
    from unix_case [OF this, of "''unixpacket''" ?h 16] unixstream show ?thesis
      by (simp add: pre readAddress_def six_pairs_defs)
  next
    case unixgram
    with enough have "216 \<le> length payload" by (simp add: six_pairs_defs)
    from unix_case [OF this, of "''unixgram''" ?h 16] unixgram show ?thesis
      by (simp add: pre readAddress_def six_pairs_defs)
  qed
qed

text \<open>The canonical vector with the declared length 10 in place of 12.\<close>

theorem declared_length_ignored_witness:
  "\<exists>a. ReadFrom \<lparr>Command = 0, ProxyAddress = None\<rparr> (bytes_NewReader (ProtocolSignature @
          [0x21, 0x11, 0x00, 0x0A, 0x7F, 0x00, 0x00, 0x01, 0x7F, 0x00, 0x00, 0x01, 0xA5, 0xCE, 0x05, 0x3A])) =
        (Returned (16 + unat (getLength a), None), \<lparr>Command = 1, ProxyAddress = Some a\<rparr>,
         bytes_NewReader (drop (unat (getLength a))
           [0x7F, 0x00, 0x00, 0x01, 0x7F, 0x00, 0x00, 0x01, 0xA5, 0xCE, 0x05, 0x3A])) \<and>
       getSignature a = Returned (ProtocolByte AddressFamilyINET TransportProtocolSTREAM)"
  using declared_length_ignored [where ?b12.0 = "0x21" and ?b13.0 = "0x11" and hi = "0x00" and lo = "0x0A"
      and payload = "[0x7F, 0x00, 0x00, 0x01, 0x7F, 0x00, 0x00, 0x01, 0xA5, 0xCE, 0x05, 0x3A]"
      and h = "\<lparr>Command = 0, ProxyAddress = None\<rparr>"]
  by (simp add: BigEndian_Uint16_def six_pairs_defs ProtocolVersion_def CommandLOCAL_def CommandPROXY_def)

text \<open>
  C2 as stated fails: with the length 10 declared for INET/STREAM and the 12 bytes of
  the payload present, decoding returns no error and the count 28, so 12 bytes of
  payload were consumed, not 10.
\<close>

theorem declared_length_mismatch_counterexample:
  "ReadFrom \<lparr>Command = 0, ProxyAddress = None\<rparr> (bytes_NewReader
     [0x0D, 0x0A, 0x0D, 0x0A, 0x00, 0x0D, 0x0A, 0x51, 0x55, 0x49, 0x54, 0x0A, 0x21, 0x11, 0x00, 0x0A,
      0x7F, 0x00, 0x00, 0x01, 0x7F, 0x00, 0x00, 0x01, 0xA5, 0xCE, 0x05, 0x3A]) =
   (Returned (28, None),
    \<lparr>Command = 1,
      ProxyAddress = Some (IPv4Address (TCPAddr [127, 0, 0, 1] 42446 [])
                                        (TCPAddr [127, 0, 0, 1] 1338 []))\<rparr>,
    bytes_NewReader [])"
  by (simp add: ReadFrom_def readAddress_def readIPCase_def field_readers ipEndpoints_def
      deref_def Read_bytes_full BigEndian_Uint16_def constants)


section \<open>One read for each field\<close>































text \<open>The six recognised pairs select their branch of \<open>readAddress\<close>.\<close>

lemma readAddress_recognised:
  "readAddress h m r (ProtocolByte AddressFamilyINET TransportProtocolSTREAM) a =
     readIPCase h m r 4 TCPAddr IPv4Address"
  "readAddress h m r (ProtocolByte AddressFamilyINET TransportProtocolDGRAM) a =
     readIPCase h m r 4 UDPAddr IPv4Address"
  "readAddress h m r (ProtocolByte AddressFamilyINET6 TransportProtocolSTREAM) a =
     readIPCase h m r 16 TCPAddr IPv6Address"
  "readAddress h m r (ProtocolByte AddressFamilyINET6 TransportProtocolDGRAM) a =
     readIPCase h m r 16 UDPAddr IPv6Address"
  "readAddress h m r (ProtocolByte AddressFamilyUNIX TransportProtocolSTREAM) a =
     readUnixCase h m r ''unixpacket''"
  "readAddress h m r (ProtocolByte AddressFamilyUNIX TransportProtocolDGRAM) a =
     readUnixCase h m r ''unixgram''"
  by (simp_all add: readAddress_def six_pairs_defs)




























section \<open>Encoding a header without an address\<close>

lemma Write_buffer:
  "room w = None \<Longrightarrow> Write w p = ((length p, None), w\<lparr>written := written w @ p\<rparr>)"
  by (simp add: Write_def)

lemma WriteTo_nil_address:
  assumes "room w = None" and "ProxyAddress h = None"
  shows "WriteTo h w =
     (Panicked NilDereference,
      w\<lparr>written := written w @ ProtocolSignature @ [push_bit 4 ProtocolVersion OR Command h]\<rparr>)"
  using assms by (simp add: WriteTo_def VersionByte_WriteTo_def Write_buffer ProtocolSignature_def)

text \<open>
  C4. With the command PROXY and no address attached, \<open>Header.WriteTo\<close> writes the 12
  signature bytes and the byte 21 and then panics on the nil address: 13 bytes are
  written, and the call does not return an error.
\<close>

theorem proxy_without_address_panics:
  "WriteTo \<lparr>Command = CommandPROXY, ProxyAddress = None\<rparr> bytes_Buffer =
     (Panicked NilDereference,
      \<lparr>written = [0x0D, 0x0A, 0x0D, 0x0A, 0x00, 0x0D, 0x0A, 0x51, 0x55, 0x49, 0x54, 0x0A, 0x21],
       room = None\<rparr>)"
  by (simp add: WriteTo_nil_address bytes_Buffer_def constants)

text \<open>
  C5. With the command LOCAL and no address attached, \<open>Header.WriteTo\<close> writes the 12
  signature bytes and the byte 20 and then panics on the nil address, before any
  length field is written.
\<close>

theorem local_without_address_panics:
  "WriteTo \<lparr>Command = CommandLOCAL, ProxyAddress = None\<rparr> bytes_Buffer =
     (Panicked NilDereference,
      \<lparr>written = [0x0D, 0x0A, 0x0D, 0x0A, 0x00, 0x0D, 0x0A, 0x51, 0x55, 0x49, 0x54, 0x0A, 0x20],
       room = None\<rparr>)"
  by (simp add: WriteTo_nil_address bytes_Buffer_def constants)

text \<open>With an address attached whose source is a TCP, UDP or UNIX address, a LOCAL
  header is 16 bytes: the length field is 0 and no payload follows.\<close>

lemma local_with_address_encodes:
  assumes "Command h = CommandLOCAL" and "ProxyAddress h = Some a"
    and "getSignature a = Returned (ProtocolByte family transport)"
  shows "WriteTo h bytes_Buffer =
     (Returned (16, None),
      \<lparr>written = ProtocolSignature @ [0x20, push_bit 4 family OR transport, 0x00, 0x00], room = None\<rparr>)"
  using assms
  by (simp add: WriteTo_def VersionByte_WriteTo_def ProtocolByte_WriteTo_def AddressLength_WriteTo_def
      binary_Write_def BigEndian_PutUint16_def Write_buffer bytes_Buffer_def constants)

section \<open>Round trip\<close>

text \<open>A PROXY header whose address is in wire-normal form is encoded without error, and
  decoding the bytes written returns the same header, the same count and no error.\<close>

lemma binary_Write_buffer:
  "room w = None \<Longrightarrow> binary_Write w v = (None, w\<lparr>written := written w @ BigEndian_PutUint16 v\<rparr>)"
  by (simp add: binary_Write_def Write_buffer)

lemma writePorts_buffer:
  assumes "room w = None" and "getPort src = Returned sp" and "getPort dst = Returned dp"
  shows "writePorts w src dst =
     (Returned (4, None), w\<lparr>written := written w @ BigEndian_PutUint16 sp @ BigEndian_PutUint16 dp\<rparr>)"
  using assms by (simp add: writePorts_def binary_Write_buffer)

lemma writeIPAddress_buffer:
  assumes "room w = None" and "bytesOf src = Returned sb" and "bytesOf dst = Returned db"
    and "getPort src = Returned sp" and "getPort dst = Returned dp"
  shows "writeIPAddress bytesOf src dst w =
     (Returned (length sb + length db + 4, None),
      w\<lparr>written := written w @ sb @ db @ BigEndian_PutUint16 sp @ BigEndian_PutUint16 dp\<rparr>)"
  using assms by (simp add: writeIPAddress_def Write_buffer writePorts_buffer)

lemma UnixAddr_WriteTo_buffer:
  assumes "room w = None" and "length (Name src) = 108" and "length (Name dst) = 108"
  shows "UnixAddr_WriteTo src dst w =
     (Returned (216, None), w\<lparr>written := written w @ Name src @ Name dst\<rparr>)"
  using assms by (simp add: UnixAddr_WriteTo_def addressToBytes_def Write_buffer)

lemma ipv4Bytes_normal:
  "length ip = 4 \<Longrightarrow> ipv4Bytes (TCPAddr ip p z) = Returned ip"
  "length ip = 4 \<Longrightarrow> ipv4Bytes (UDPAddr ip p z) = Returned ip"
  by (simp_all add: ipv4Bytes_def addressToBytes_def alignIP_def slice_from_def)

lemma addressToBytes_normal:
  "length ip = 16 \<Longrightarrow> addressToBytes (TCPAddr ip p z) = Returned ip"
  "length ip = 16 \<Longrightarrow> addressToBytes (UDPAddr ip p z) = Returned ip"
  by (simp_all add: addressToBytes_def alignIP_def)

lemma length_ProtocolSignature: "length ProtocolSignature = 12"
  by (simp add: ProtocolSignature_def)

lemma WriteTo_proxy_buffer:
  assumes "Command h = CommandPROXY" and "ProxyAddress h = Some a"
    and "getSignature a = Returned (ProtocolByte f t)"
    and "\<And>w. room w = None \<Longrightarrow>
           ProxyAddress_WriteTo a w = (Returned (n, None), w\<lparr>written := written w @ payload\<rparr>)"
  shows "WriteTo h bytes_Buffer =
     (Returned (16 + n, None),
      \<lparr>written = ProtocolSignature @ 0x21 # (push_bit 4 f OR t) # BigEndian_PutUint16 (getLength a) @ payload,
       room = None\<rparr>)"
  using assms(1-3)
  by (simp add: WriteTo_def VersionByte_WriteTo_def ProtocolByte_WriteTo_def AddressLength_WriteTo_def
      binary_Write_buffer Write_buffer assms(4) bytes_Buffer_def ProtocolVersion_def CommandPROXY_def
      BigEndian_PutUint16_def length_ProtocolSignature)

lemma Header_eq: "h\<lparr>Command := Command h', ProxyAddress := ProxyAddress h'\<rparr> = (h' :: Header)"
  by (cases h, cases h') simp

lemma decode_ip_payload:
  assumes "length sip = n" and "length dip = n" and "0 < n"
  shows "readIPCase h m (bytes_NewReader (sip @ dip @ BigEndian_PutUint16 sp @ BigEndian_PutUint16 dp)) n mk variant =
     (Returned (m + (n + n + 2 + 2), None),
      h\<lparr>ProxyAddress := Some (variant (mk sip (uint sp) []) (mk dip (uint dp) []))\<rparr>,
      bytes_NewReader [])"
proof -
  let ?bs = "sip @ dip @ BigEndian_PutUint16 sp @ BigEndian_PutUint16 dp"
  have l2: "length (BigEndian_PutUint16 v) = 2" for v by (simp add: BigEndian_PutUint16_def)
  have len: "n + n + 4 \<le> length ?bs" using assms by (simp add: l2)
  have 1: "take n ?bs = sip" using assms by simp
  have 2: "drop n ?bs = dip @ BigEndian_PutUint16 sp @ BigEndian_PutUint16 dp" using assms by simp
  have 3: "take n (drop n ?bs) = dip" unfolding 2 using assms by simp
  have 4: "drop n (drop n ?bs) = BigEndian_PutUint16 sp @ BigEndian_PutUint16 dp"
    unfolding 2 using assms by simp
  have 5: "take 2 (drop n (drop n ?bs)) = BigEndian_PutUint16 sp" unfolding 4 by (simp add: l2)
  have 6: "drop 2 (drop n (drop n ?bs)) = BigEndian_PutUint16 dp" unfolding 4 by (simp add: l2)
  have 7: "take 2 (drop 2 (drop n (drop n ?bs))) = BigEndian_PutUint16 dp" unfolding 6 by (simp add: l2)
  have 8: "drop 2 (drop 2 (drop n (drop n ?bs))) = []" unfolding 6 by (simp add: l2)
  show ?thesis
    unfolding readIPCase_bytes [OF assms(3) len] 1 3 5 7 8 BigEndian_roundtrip ..
qed

lemma roundtrip_ip:
  assumes cmd: "Command h = CommandPROXY"
    and addr: "ProxyAddress h = Some (variant (mk sip sp []) (mk dip dp []))"
    and mk: "mk = TCPAddr \<and> t = TransportProtocolSTREAM \<or> mk = UDPAddr \<and> t = TransportProtocolDGRAM"
    and len: "length sip = n" "length dip = n"
    and ports: "0 \<le> sp" "sp < 65536" "0 \<le> dp" "dp < 65536"
    and v: "variant = IPv4Address \<and> n = 4 \<and> f = AddressFamilyINET \<or>
            variant = IPv6Address \<and> n = 16 \<and> f = AddressFamilyINET6"
  shows "\<exists>bs. WriteTo h bytes_Buffer = (Returned (16 + (n + n + 4), None), \<lparr>written = bs, room = None\<rparr>) \<and>
              ReadFrom h0 (bytes_NewReader bs) = (Returned (16 + (n + n + 4), None), h, bytes_NewReader [])"
proof -
  let ?src = "mk sip sp []" and ?dst = "mk dip dp []"
  let ?a = "variant ?src ?dst"
  let ?payload = "sip @ dip @ BigEndian_PutUint16 (word_of_int sp) @ BigEndian_PutUint16 (word_of_int dp)"
  have sig: "getSignature ?a = Returned (ProtocolByte f t)"
    using mk v by (auto simp add: getSignature_def signatureOf_def getTransportProtocol_def)
  have port: "getPort ?src = Returned (word_of_int sp)" "getPort ?dst = Returned (word_of_int dp)"
    using mk by (auto simp add: getPort_def)
  have wr: "ProxyAddress_WriteTo ?a w = (Returned (n + n + 4, None), w\<lparr>written := written w @ ?payload\<rparr>)"
    if "room w = None" for w
  proof -
    from v consider (v4) "variant = IPv4Address" "n = 4" | (v6) "variant = IPv6Address" "n = 16" by blast
    then show ?thesis
    proof cases
      case v4
      have "ipv4Bytes ?src = Returned sip" "ipv4Bytes ?dst = Returned dip"
        using mk len v4 by (auto simp add: ipv4Bytes_normal)
      from writeIPAddress_buffer [OF that this port] len show ?thesis
        by (simp add: ProxyAddress_WriteTo_def IPv4Address_WriteTo_def v4)
    next
      case v6
      have "addressToBytes ?src = Returned sip" "addressToBytes ?dst = Returned dip"
        using mk len v6 by (auto simp add: addressToBytes_normal)
      from writeIPAddress_buffer [OF that this port] len show ?thesis
        by (simp add: ProxyAddress_WriteTo_def IPv6Address_WriteTo_def v6)
    qed
  qed
  have lenbytes: "BigEndian_PutUint16 (getLength ?a) = [0, of_nat (n + n + 4)]"
    using v by (auto simp add: BigEndian_PutUint16_def getLength_def)
  have written: "WriteTo h bytes_Buffer =
     (Returned (16 + (n + n + 4), None),
      \<lparr>written = ProtocolSignature @ 0x21 # (push_bit 4 f OR t) # 0 # of_nat (n + n + 4) # ?payload,
       room = None\<rparr>)"
    using WriteTo_proxy_buffer [OF cmd addr sig wr] by (simp add: lenbytes)
  have nibbles: "drop_bit 4 (push_bit 4 f OR t) = f" "(push_bit 4 f OR t) AND 15 = t"
    using mk v by (auto simp add: six_pairs_defs)
  have nonzero: "BigEndian_Uint16 [0, of_nat (n + n + 4)] \<noteq> 0"
    using v by (auto simp add: BigEndian_Uint16_def)
  have pre: "ReadFrom h0 (bytes_NewReader
       (ProtocolSignature @ 0x21 # (push_bit 4 f OR t) # 0 # of_nat (n + n + 4) # ?payload)) =
     readAddress (h0\<lparr>Command := 0x21 AND 15\<rparr>) 16 (bytes_NewReader ?payload)
       (ProtocolByte f t) (BigEndian_Uint16 [0, of_nat (n + n + 4)])"
  proof -
    have c1: "drop_bit 4 (0x21 :: byte) = ProtocolVersion" by (simp add: ProtocolVersion_def)
    have c2: "(0x21 :: byte) AND 15 \<in> {CommandLOCAL, CommandPROXY}" by (simp add: CommandPROXY_def)
    have c3: "drop_bit 4 (push_bit 4 f OR t) \<in>
        {AddressFamilyUNSPEC, AddressFamilyINET, AddressFamilyINET6, AddressFamilyUNIX}"
      unfolding nibbles(1) using v by auto
    have c4: "(push_bit 4 f OR t) AND 15 \<in>
        {TransportProtocolUNSPEC, TransportProtocolSTREAM, TransportProtocolDGRAM}"
      unfolding nibbles(2) using mk by auto
    show ?thesis unfolding ReadFrom_preamble [OF c1 c2 c3 c4] nibbles using nonzero by simp
  qed
  have npos: "0 < n" using v by auto
  have "readAddress (h0\<lparr>Command := 0x21 AND 15\<rparr>) 16 (bytes_NewReader ?payload)
       (ProtocolByte f t) (BigEndian_Uint16 [0, of_nat (n + n + 4)]) =
     readIPCase (h0\<lparr>Command := 0x21 AND 15\<rparr>) 16 (bytes_NewReader ?payload) n mk variant"
    using mk v by (auto simp add: readAddress_recognised)
  also have "\<dots> = (Returned (16 + (n + n + 2 + 2), None),
      h0\<lparr>Command := 0x21 AND 15,
         ProxyAddress := Some (variant (mk sip (uint (word_of_int sp :: 16 word)) [])
                                       (mk dip (uint (word_of_int dp :: 16 word)) []))\<rparr>,
      bytes_NewReader [])"
    by (rule decode_ip_payload [OF len npos])
  also have "\<dots> = (Returned (16 + (n + n + 4), None), h, bytes_NewReader [])"
    using cmd addr ports Header_eq [of h0 h] by (simp add: uint_port CommandPROXY_def)
  finally show ?thesis using written pre by simp
qed


lemma UnixSock_eq: "\<lparr>Name = Name u, Net = Net u\<rparr> = (u :: UnixSock)"
  by (cases u) simp

lemma roundtrip_unix:
  assumes cmd: "Command h = CommandPROXY"
    and addr: "ProxyAddress h = Some (UnixAddr src dst)"
    and len: "length (Name src) = 108" "length (Name dst) = 108"
    and net: "Net dst = Net src" "Net src = ''unixpacket'' \<or> Net src = ''unixgram''"
  shows "\<exists>bs. WriteTo h bytes_Buffer = (Returned (16 + 216, None), \<lparr>written = bs, room = None\<rparr>) \<and>
              ReadFrom h0 (bytes_NewReader bs) = (Returned (16 + 216, None), h, bytes_NewReader [])"
proof -
  let ?a = "UnixAddr src dst"
  let ?payload = "Name src @ Name dst"
  define t where "t = (if Net src = ''unixgram'' then TransportProtocolDGRAM else TransportProtocolSTREAM)"
  have t: "Net src = ''unixpacket'' \<and> t = TransportProtocolSTREAM \<or>
           Net src = ''unixgram'' \<and> t = TransportProtocolDGRAM"
    using net(2) by (auto simp add: t_def)
  have sig: "getSignature ?a = Returned (ProtocolByte AddressFamilyUNIX t)"
    by (simp add: getSignature_def signatureOf_def getTransportProtocol_def t_def)
  have wr: "ProxyAddress_WriteTo ?a w = (Returned (216, None), w\<lparr>written := written w @ ?payload\<rparr>)"
    if "room w = None" for w
    using UnixAddr_WriteTo_buffer [OF that len] by (simp add: ProxyAddress_WriteTo_def)
  have lenbytes: "BigEndian_PutUint16 (getLength ?a) = [0, 216]"
    by (simp add: BigEndian_PutUint16_def getLength_def)
  have written: "WriteTo h bytes_Buffer =
     (Returned (16 + 216, None),
      \<lparr>written = ProtocolSignature @ 0x21 # (push_bit 4 AddressFamilyUNIX OR t) # 0 # 216 # ?payload,
       room = None\<rparr>)"
    using WriteTo_proxy_buffer [OF cmd addr sig wr] by (simp add: lenbytes)
  have nibbles: "drop_bit 4 (push_bit 4 AddressFamilyUNIX OR t) = AddressFamilyUNIX"
      "(push_bit 4 AddressFamilyUNIX OR t) AND 15 = t"
    using t by (auto simp add: six_pairs_defs)
  have nonzero: "BigEndian_Uint16 [0, 216] \<noteq> 0"
    by (simp add: BigEndian_Uint16_def)
  have pre: "ReadFrom h0 (bytes_NewReader
       (ProtocolSignature @ 0x21 # (push_bit 4 AddressFamilyUNIX OR t) # 0 # 216 # ?payload)) =
     readAddress (h0\<lparr>Command := 0x21 AND 15\<rparr>) 16 (bytes_NewReader ?payload)
       (ProtocolByte AddressFamilyUNIX t) (BigEndian_Uint16 [0, 216])"
  proof -
    have c1: "drop_bit 4 (0x21 :: byte) = ProtocolVersion" by (simp add: ProtocolVersion_def)
    have c2: "(0x21 :: byte) AND 15 \<in> {CommandLOCAL, CommandPROXY}" by (simp add: CommandPROXY_def)
    have c3: "drop_bit 4 (push_bit 4 AddressFamilyUNIX OR t) \<in>
        {AddressFamilyUNSPEC, AddressFamilyINET, AddressFamilyINET6, AddressFamilyUNIX}"
      unfolding nibbles(1) by simp
    have c4: "(push_bit 4 AddressFamilyUNIX OR t) AND 15 \<in>
        {TransportProtocolUNSPEC, TransportProtocolSTREAM, TransportProtocolDGRAM}"
      unfolding nibbles(2) using t by auto
    show ?thesis unfolding ReadFrom_preamble [OF c1 c2 c3 c4] nibbles using nonzero by simp
  qed
  have "readAddress (h0\<lparr>Command := 0x21 AND 15\<rparr>) 16 (bytes_NewReader ?payload)
       (ProtocolByte AddressFamilyUNIX t) (BigEndian_Uint16 [0, 216]) =
     readUnixCase (h0\<lparr>Command := 0x21 AND 15\<rparr>) 16 (bytes_NewReader ?payload) (Net src)"
    using t by (auto simp add: readAddress_recognised)
  also have "\<dots> = (Returned (16 + 216, None),
      h0\<lparr>Command := 0x21 AND 15,
         ProxyAddress := Some (UnixAddr \<lparr>Name = Name src, Net = Net src\<rparr>
                                         \<lparr>Name = Name dst, Net = Net src\<rparr>)\<rparr>,
      bytes_NewReader [])"
    using len by (subst readUnixCase_bytes) simp_all
  also have "\<dots> = (Returned (16 + 216, None), h, bytes_NewReader [])"
    using cmd addr Header_eq [of h0 h] UnixSock_eq [of src] UnixSock_eq [of dst] net(1)
    by (simp add: CommandPROXY_def)
  finally show ?thesis using written pre by simp
qed

lemma proxy_roundtrip:
  assumes "Command h = CommandPROXY" and "ProxyAddress h = Some a" and "wireNormal a"
  shows "\<exists>n bs. WriteTo h bytes_Buffer = (Returned (n, None), \<lparr>written = bs, room = None\<rparr>) \<and>
                ReadFrom h0 (bytes_NewReader bs) = (Returned (n, None), h, bytes_NewReader [])"
proof (cases a)
  case (IPv4Address src dst)
  with assms(3) have "wireNormalIP 4 src dst" by (simp add: wireNormal_def)
  then consider sip sp dip dp where "src = TCPAddr sip sp []" "dst = TCPAddr dip dp []"
      "length sip = 4" "length dip = 4" "0 \<le> sp" "sp < 65536" "0 \<le> dp" "dp < 65536"
    | sip sp dip dp where "src = UDPAddr sip sp []" "dst = UDPAddr dip dp []"
      "length sip = 4" "length dip = 4" "0 \<le> sp" "sp < 65536" "0 \<le> dp" "dp < 65536"
    by (auto simp add: wireNormalIP_def split: Addr.splits)
  then show ?thesis
  proof cases
    case 1
    from roundtrip_ip [where variant = IPv4Address and mk = TCPAddr and n = 4 and h = h and ?h0.0 = h0,
        OF assms(1) _ _ 1(3-8)] assms(2) IPv4Address 1(1,2)
    show ?thesis by blast
  next
    case 2
    from roundtrip_ip [where variant = IPv4Address and mk = UDPAddr and n = 4 and h = h and ?h0.0 = h0,
        OF assms(1) _ _ 2(3-8)] assms(2) IPv4Address 2(1,2)
    show ?thesis by blast
  qed
next
  case (IPv6Address src dst)
  with assms(3) have "wireNormalIP 16 src dst" by (simp add: wireNormal_def)
  then consider sip sp dip dp where "src = TCPAddr sip sp []" "dst = TCPAddr dip dp []"
      "length sip = 16" "length dip = 16" "0 \<le> sp" "sp < 65536" "0 \<le> dp" "dp < 65536"
    | sip sp dip dp where "src = UDPAddr sip sp []" "dst = UDPAddr dip dp []"
      "length sip = 16" "length dip = 16" "0 \<le> sp" "sp < 65536" "0 \<le> dp" "dp < 65536"
    by (auto simp add: wireNormalIP_def split: Addr.splits)
  then show ?thesis
  proof cases
    case 1
    from roundtrip_ip [where variant = IPv6Address and mk = TCPAddr and n = 16 and h = h and ?h0.0 = h0,
        OF assms(1) _ _ 1(3-8)] assms(2) IPv6Address 1(1,2)
    show ?thesis by blast
  next
    case 2
    from roundtrip_ip [where variant = IPv6Address and mk = UDPAddr and n = 16 and h = h and ?h0.0 = h0,
        OF assms(1) _ _ 2(3-8)] assms(2) IPv6Address 2(1,2)
    show ?thesis by blast
  qed
next
  case (UnixAddr src dst)
  with assms(3) have "length (Name src) = 108" "length (Name dst) = 108" "Net dst = Net src"
      "Net src = ''unixpacket'' \<or> Net src = ''unixgram''"
    by (simp_all add: wireNormal_def)
  from roundtrip_unix [where h = h and src = src and dst = dst and ?h0.0 = h0, OF assms(1) _ this]
    assms(2) UnixAddr show ?thesis by blast
qed

text \<open>
  C1. For PROXY headers the round trip holds (\<open>proxy_roundtrip\<close>). The header with
  the command LOCAL and no address is what decoding a LOCAL header produces, and it
  cannot be encoded: \<open>Header.WriteTo\<close> panics after 13 bytes, and decoding those 13
  bytes ends with \<open>EOF\<close>.
\<close>

theorem roundtrip_local_without_address_fails:
  "fst (WriteTo \<lparr>Command = CommandLOCAL, ProxyAddress = None\<rparr> bytes_Buffer) = Panicked NilDereference \<and>
   fst (ReadFrom \<lparr>Command = CommandLOCAL, ProxyAddress = None\<rparr>
     (bytes_NewReader (written (snd (WriteTo \<lparr>Command = CommandLOCAL, ProxyAddress = None\<rparr> bytes_Buffer))))) =
     Returned (13, Some EOF)"
  by (simp add: WriteTo_nil_address bytes_Buffer_def constants ReadFrom_def field_readers Read_bytes_full Read_bytes_empty)


end
